theory Spec2Isabelle
  imports Complex_Main
begin

section \<open>JavaScript values used by the two scripts\<close>

text \<open>
  The scripts are browser JavaScript. Their numbers are modelled as finite decimals
  \<open>Dec m k\<close> (the value \<open>m / 10 ^ k\<close>) together with \<open>NaN\<close> and the two infinities;
  the rounding of IEEE doubles inside their range is not modelled, so the model agrees
  with the browser on decimals of at most 15 significant digits. Strings are \<open>string\<close>, a
  character standing for a UTF-16 code unit below 256.
\<close>

datatype jsnum = NaN | PosInf | NegInf | Dec int nat

text \<open>\<open>norm_dec\<close> removes trailing zeros of the fraction: one representation per value.\<close>

fun norm_dec :: "int \<Rightarrow> nat \<Rightarrow> jsnum" where
  "norm_dec m 0 = Dec m 0"
| "norm_dec m (Suc k) = (if m mod 10 = 0 then norm_dec (m div 10) k else Dec m (Suc k))"

definition num_of_int :: "int \<Rightarrow> jsnum" where
  "num_of_int i = Dec i 0"

text \<open>ToBoolean on a number: \<open>0\<close> and \<open>NaN\<close> are falsy.\<close>

fun truthy_num :: "jsnum \<Rightarrow> bool" where
  "truthy_num NaN = False"
| "truthy_num (Dec m k) = (m \<noteq> 0)"
| "truthy_num _ = True"

text \<open>ToBoolean on a string: only the empty string is falsy.\<close>

definition truthy_str :: "string \<Rightarrow> bool" where
  "truthy_str s = (s \<noteq> [])"

subsection \<open>Number to string\<close>

definition digit_char :: "nat \<Rightarrow> char" where
  "digit_char d = ''0123456789'' ! (d mod 10)"

function digits_of :: "nat \<Rightarrow> string" where
  "digits_of n = (if n < 10 then [digit_char n] else digits_of (n div 10) @ [digit_char (n mod 10)])"
  by pat_completeness auto
termination
  by (relation "measure (\<lambda>n. n)") auto

declare digits_of.simps [simp del]

definition strip_zeros :: "string \<Rightarrow> string" where
  "strip_zeros ds = rev (dropWhile (\<lambda>c. c = CHR ''0'') (rev ds))"

text \<open>
  Number::toString of ECMAScript, radix 10. With \<open>s\<close> the significant digits (\<open>k\<close> of
  them, no trailing zero) and \<open>n\<close> the decimal exponent such that the value is
  \<open>s * 10 ^ (n - k)\<close>: plain digits up to \<open>10 ^ 21\<close>, a leading \<open>0.\<close> down to \<open>10 ^ -6\<close>,
  exponent notation outside.
\<close>

definition exp_part :: "int \<Rightarrow> string" where
  "exp_part e = ''e'' @ (if e < 0 then ''-'' else ''+'') @ digits_of (nat \<bar>e\<bar>)"

definition abs_toString :: "nat \<Rightarrow> nat \<Rightarrow> string" where
  "abs_toString a sc =
     (let ds = digits_of a;
          s = strip_zeros ds;
          k = length s;
          n = int (length ds) - int sc
      in if int k \<le> n \<and> n \<le> 21 then s @ replicate (nat (n - int k)) CHR ''0''
         else if 0 < n \<and> n \<le> 21 then take (nat n) s @ ''.'' @ drop (nat n) s
         else if -6 < n \<and> n \<le> 0 then ''0.'' @ replicate (nat (- n)) CHR ''0'' @ s
         else if k = 1 then s @ exp_part (n - 1)
         else take 1 s @ ''.'' @ drop 1 s @ exp_part (n - 1))"

fun num_toString :: "jsnum \<Rightarrow> string" where
  "num_toString NaN = ''NaN''"
| "num_toString PosInf = ''Infinity''"
| "num_toString NegInf = ''-Infinity''"
| "num_toString (Dec m k) =
     (if m = 0 then ''0''
      else (if m < 0 then ''-'' else '''') @ abs_toString (nat \<bar>m\<bar>) k)"

definition int_toString :: "int \<Rightarrow> string" where
  "int_toString i = num_toString (num_of_int i)"

subsection \<open>String to number: \<open>parseInt\<close> and \<open>parseFloat\<close>\<close>

text \<open>
  The white space that the two parsers skip: tab, line feed, vertical tab, form feed,
  carriage return, space and the no-break space (the other white space of ECMAScript
  lies above 255).
\<close>

definition is_space :: "char \<Rightarrow> bool" where
  "is_space c =
     (c \<in> set [CHR '' '', CHR 0x09, CHR 0x0A, CHR 0x0B, CHR 0x0C, CHR 0x0D, CHR 0xA0])"

definition dec_digit :: "char \<Rightarrow> nat option" where
  "dec_digit c =
     (let n = (of_char c :: nat) in if 48 \<le> n \<and> n \<le> 57 then Some (n - 48) else None)"

definition hex_digit :: "char \<Rightarrow> nat option" where
  "hex_digit c =
     (let n = (of_char c :: nat)
      in if 48 \<le> n \<and> n \<le> 57 then Some (n - 48)
         else if 65 \<le> n \<and> n \<le> 70 then Some (n - 55)
         else if 97 \<le> n \<and> n \<le> 102 then Some (n - 87)
         else None)"

definition is_digit :: "char \<Rightarrow> bool" where
  "is_digit c = (dec_digit c \<noteq> None)"

definition is_hex :: "char \<Rightarrow> bool" where
  "is_hex c = (hex_digit c \<noteq> None)"

text \<open>The value of a digit string in a radix, most significant digit first.\<close>

definition digits_value :: "nat \<Rightarrow> (char \<Rightarrow> nat option) \<Rightarrow> string \<Rightarrow> nat" where
  "digits_value radix dv ds =
     foldl (\<lambda>acc c. acc * radix + (case dv c of Some d \<Rightarrow> d | None \<Rightarrow> 0)) 0 ds"

text \<open>An optional sign: the sign (\<open>True\<close> for minus) and the rest of the string.\<close>

fun take_sign :: "string \<Rightarrow> bool \<times> string" where
  "take_sign [] = (False, [])"
| "take_sign (c # cs) =
     (if c = CHR ''-'' then (True, cs) else if c = CHR ''+'' then (False, cs) else (False, c # cs))"

definition signed :: "bool \<Rightarrow> nat \<Rightarrow> int" where
  "signed neg n = (if neg then - int n else int n)"

text \<open>
  The range of a double: a value that rounds to \<open>2 ^ 1024\<close> or beyond (from
  \<open>2 ^ 1024 - 2 ^ 970\<close> on) is an infinity, a value of at most \<open>2 ^ -1075\<close> in magnitude
  is \<open>0\<close>.
\<close>

definition double_range :: "jsnum \<Rightarrow> jsnum" where
  "double_range x =
     (case x of
        Dec m k \<Rightarrow>
          if (2 ^ 1024 - 2 ^ 970) * 10 ^ k \<le> \<bar>m\<bar> then (if m < 0 then NegInf else PosInf)
          else if \<bar>m\<bar> * 2 ^ 1075 \<le> 10 ^ k then Dec 0 0
          else Dec m k
      | _ \<Rightarrow> x)"

text \<open>
  \<open>parseInt(s)\<close> with no radix: leading white space and a sign are skipped, \<open>0x\<close> selects
  radix 16, the longest prefix of digits is read, and no digit at all gives \<open>NaN\<close>.
\<close>

definition parseInt :: "string \<Rightarrow> jsnum" where
  "parseInt str =
     (let (neg, r) = take_sign (dropWhile is_space str)
      in if take 2 r = ''0x'' \<or> take 2 r = ''0X''
         then (let ds = takeWhile is_hex (drop 2 r)
               in if ds = [] then NaN
                  else double_range (Dec (signed neg (digits_value 16 hex_digit ds)) 0))
         else (let ds = takeWhile is_digit r
               in if ds = [] then NaN
                  else double_range (Dec (signed neg (digits_value 10 dec_digit ds)) 0)))"

text \<open>
  \<open>parseFloat(s)\<close>: leading white space is skipped and the longest prefix that is a
  decimal literal is read: a sign, then \<open>Infinity\<close> or digits with an optional fraction
  and an optional exponent. No such prefix gives \<open>NaN\<close>.
\<close>

definition scale_dec :: "int \<Rightarrow> nat \<Rightarrow> int \<Rightarrow> jsnum" where
  "scale_dec m fl e =
     (if int fl \<le> e then Dec (m * 10 ^ nat (e - int fl)) 0
      else norm_dec m (nat (int fl - e)))"

definition read_exponent :: "string \<Rightarrow> int" where
  "read_exponent r =
     (case r of
        [] \<Rightarrow> 0
      | c # cs \<Rightarrow>
          if c = CHR ''e'' \<or> c = CHR ''E''
          then (let (neg, r') = take_sign cs; ds = takeWhile is_digit r'
                in if ds = [] then 0 else signed neg (digits_value 10 dec_digit ds))
          else 0)"

definition parseFloat :: "string \<Rightarrow> jsnum" where
  "parseFloat str =
     (let (neg, r) = take_sign (dropWhile is_space str)
      in if take 8 r = ''Infinity'' then (if neg then NegInf else PosInf)
         else (let ip = takeWhile is_digit r;
                   r1 = dropWhile is_digit r;
                   has_dot = (take 1 r1 = ''.'');
                   fp = (if has_dot then takeWhile is_digit (drop 1 r1) else []);
                   r2 = (if has_dot then dropWhile is_digit (drop 1 r1) else r1)
               in if ip = [] \<and> fp = [] then NaN
                  else double_range
                         (scale_dec (signed neg (digits_value 10 dec_digit (ip @ fp)))
                            (length fp) (read_exponent r2))))"

section \<open>The log aggregator: \<open>log_export.js\<close>\<close>

subsection \<open>Data\<close>

text \<open>
  A time value of the statistics record: \<open>initLogExport\<close> stores a \<open>Date\<close> object (with
  its ISO form and the form \<open>toString\<close> prints), \<open>markProcessingComplete\<close> an ISO string.
\<close>

datatype jstime = DateObj string string | IsoStr string

text \<open>JSON values: what \<open>JSON.stringify\<close> prints, and the \<open>details\<close> payload of a log entry.\<close>

datatype json =
    JNull
  | JBool bool
  | JNum jsnum
  | JStr string
  | JArr "json list"
  | JObj "(string \<times> json) list"

record log_entry =
  log_timestamp :: string
  log_level :: string
  log_message :: string
  log_details :: json

record api_call =
  call_timestamp :: string
  call_provider :: string
  call_model :: string
  call_inputTokens :: jsnum
  call_outputTokens :: jsnum
  call_duration :: jsnum
  call_error :: "string option"

record rate_limit_event =
  ev_timestamp :: string
  ev_type :: string
  ev_provider :: string
  ev_limitType :: string
  ev_currentUsage :: jsnum
  ev_limit :: jsnum
  ev_message :: string
  ev_level :: string

text \<open>
  The statistics record. The four counters hold integers; \<open>++\<close> on them is exact (they
  stay far below \<open>2 ^ 53\<close>), so they are \<open>int\<close>.
\<close>

record stats =
  startTime :: "jstime option"
  endTime :: "jstime option"
  totalComponents :: int
  processedComponents :: int
  errors :: int
  warnings :: int

text \<open>
  The configuration record of \<open>config.js\<close>: every section and every field may be absent
  (\<open>None\<close> is \<open>undefined\<close>).
\<close>

record llm_section =
  llm_type :: "string option"
  api_key :: "string option"
  model :: "string option"
  temperature :: "jsnum option"
  max_tokens :: "jsnum option"

record flow_control_section =
  max_reader_search_attempts :: "jsnum option"
  max_verifier_rejections :: "jsnum option"
  status_sleep_time :: "jsnum option"

record docstring_options_section =
  overwrite_docstrings :: "bool option"

record user_overrides_section =
  enable_conservative_limits :: "bool option"
  max_components_per_minute :: "jsnum option"
  delay_between_requests :: "jsnum option"
  enable_batch_processing :: "bool option"
  batch_size :: "jsnum option"

record config =
  llm :: "llm_section option"
  flow_control :: "flow_control_section option"
  docstring_options :: "docstring_options_section option"
  current_provider_tier :: "string option"
  user_overrides :: "user_overrides_section option"

text \<open>The global \<open>logData\<close>.\<close>

record logData =
  logs :: "log_entry list"
  apiCalls :: "api_call list"
  rateLimitEvents :: "rate_limit_event list"
  config :: "config option"
  stats :: stats

definition initial_logData :: logData where
  "initial_logData =
     \<lparr>logs = [], apiCalls = [], rateLimitEvents = [], config = None,
      stats = \<lparr>startTime = None, endTime = None, totalComponents = 0,
               processedComponents = 0, errors = 0, warnings = 0\<rparr>\<rparr>"

text \<open>
  \<open>initLogExport\<close> stamps the start time with the current \<open>Date\<close>, given by its two
  string forms.
\<close>

definition initLogExport :: "string \<Rightarrow> string \<Rightarrow> logData \<Rightarrow> logData" where
  "initLogExport nowIso nowLocal d =
     d\<lparr>stats := (stats d)\<lparr>startTime := Some (DateObj nowIso nowLocal)\<rparr>\<rparr>"

subsection \<open>Recording\<close>

text \<open>
  Each \<open>new Date().toISOString()\<close> of the source is an argument \<open>now\<close> of the model: the
  clock is an input.
\<close>

definition addLogEntry :: "string \<Rightarrow> string \<Rightarrow> string \<Rightarrow> json \<Rightarrow> logData \<Rightarrow> logData" where
  "addLogEntry now level message details d =
     (let logEntry = \<lparr>log_timestamp = now, log_level = level, log_message = message,
                       log_details = details\<rparr>;
          d1 = d\<lparr>logs := logs d @ [logEntry]\<rparr>
      in if level = ''ERROR'' then d1\<lparr>stats := (stats d1)\<lparr>errors := errors (stats d1) + 1\<rparr>\<rparr>
         else if level = ''WARNING''
           then d1\<lparr>stats := (stats d1)\<lparr>warnings := warnings (stats d1) + 1\<rparr>\<rparr>
         else d1)"

definition addAPICallEntry ::
  "string \<Rightarrow> string \<Rightarrow> string \<Rightarrow> jsnum \<Rightarrow> jsnum \<Rightarrow> jsnum \<Rightarrow> string option \<Rightarrow> logData \<Rightarrow> logData" where
  "addAPICallEntry now provider mdl inputTokens outputTokens duration error d =
     (let apiEntry = \<lparr>call_timestamp = now, call_provider = provider, call_model = mdl,
                       call_inputTokens = inputTokens, call_outputTokens = outputTokens,
                       call_duration = duration, call_error = error\<rparr>
      in d\<lparr>apiCalls := apiCalls d @ [apiEntry]\<rparr>)"

text \<open>
  \<open>addRateLimitEvent\<close> reads the clock twice: once for its own entry (\<open>now\<close>), once inside
  \<open>addLogEntry\<close> (\<open>now'\<close>). The log entry is added with the default \<open>details = null\<close>.
\<close>

definition addRateLimitEvent ::
  "string \<Rightarrow> string \<Rightarrow> string \<Rightarrow> string \<Rightarrow> string \<Rightarrow> jsnum \<Rightarrow> jsnum \<Rightarrow> string \<Rightarrow> logData \<Rightarrow> logData" where
  "addRateLimitEvent now now' type provider limitType currentUsage limit message d =
     (let rateLimitEntry =
            \<lparr>ev_timestamp = now, ev_type = type, ev_provider = provider,
             ev_limitType = limitType, ev_currentUsage = currentUsage, ev_limit = limit,
             ev_message = message,
             ev_level = (if type = ''RATE_LIMIT_HIT'' then ''WARNING'' else ''INFO'')\<rparr>;
          d1 = d\<lparr>rateLimitEvents := rateLimitEvents d @ [rateLimitEntry]\<rparr>
      in addLogEntry now' (ev_level rateLimitEntry) (''Rate Limit Event: '' @ message) JNull d1)"

definition updateConfigForExport :: "config option \<Rightarrow> logData \<Rightarrow> logData" where
  "updateConfigForExport c d = d\<lparr>config := c\<rparr>"

text \<open>
  \<open>updateProcessingStats\<close> spreads a partial statistics object over the current one: a
  field the argument has replaces the current value.
\<close>

record stats_update =
  upd_startTime :: "jstime option option"
  upd_endTime :: "jstime option option"
  upd_totalComponents :: "int option"
  upd_processedComponents :: "int option"
  upd_errors :: "int option"
  upd_warnings :: "int option"

definition or_else :: "'a option \<Rightarrow> 'a \<Rightarrow> 'a" where
  "or_else x d = (case x of Some v \<Rightarrow> v | None \<Rightarrow> d)"

definition updateProcessingStats :: "stats_update \<Rightarrow> logData \<Rightarrow> logData" where
  "updateProcessingStats u d =
     d\<lparr>stats :=
         \<lparr>startTime = or_else (upd_startTime u) (startTime (stats d)),
          endTime = or_else (upd_endTime u) (endTime (stats d)),
          totalComponents = or_else (upd_totalComponents u) (totalComponents (stats d)),
          processedComponents = or_else (upd_processedComponents u) (processedComponents (stats d)),
          errors = or_else (upd_errors u) (errors (stats d)),
          warnings = or_else (upd_warnings u) (warnings (stats d))\<rparr>\<rparr>"

definition markProcessingComplete :: "string \<Rightarrow> logData \<Rightarrow> logData" where
  "markProcessingComplete now d = d\<lparr>stats := (stats d)\<lparr>endTime := Some (IsoStr now)\<rparr>\<rparr>"

subsection \<open>The page\<close>

text \<open>
  What the scripts touch of the page through jQuery and the browser: the value of each
  form control and the checked state of each checkbox (by selector), the inner HTML of
  the display regions, the messages shown by \<open>showMessage\<close> (kind and text), the files
  handed to the browser by \<open>downloadFile\<close>, and whether the export dialog is open.

  \<open>vals p sel\<close> is the string that \<open>$(sel).val()\<close> returns. A control does not hold every
  string it is given: the browser sanitises the value (a text input drops line breaks, a
  number input empties on a string that is no number, a selection control keeps only
  its options) and jQuery's getter drops carriage returns. The markup of the page is
  not part of the source, so the page carries this behaviour: \<open>control p sel v\<close> is the
  string that \<open>$(sel).val()\<close> returns once \<open>$(sel).val(v)\<close> has run. (A selection control
  with nothing selected reads as \<open>null\<close>, which is no state of this model.)
\<close>

record download =
  dl_content :: string
  dl_filename :: string
  dl_mimeType :: string

record page =
  vals :: "string \<Rightarrow> string"
  control :: "string \<Rightarrow> string \<Rightarrow> string"
  checked :: "string \<Rightarrow> bool"
  html :: "string \<Rightarrow> string"
  messages :: "(string \<times> string) list"
  downloads :: "download list"
  modal_open :: bool

definition set_val :: "string \<Rightarrow> string \<Rightarrow> page \<Rightarrow> page" where
  "set_val sel v p = p\<lparr>vals := (vals p)(sel := control p sel v)\<rparr>"

text \<open>A text input: the value sanitisation drops line feeds and carriage returns.\<close>

definition text_input :: "string \<Rightarrow> string" where
  "text_input v = filter (\<lambda>c. c \<noteq> CHR 0x0A \<and> c \<noteq> CHR 0x0D) v"

definition set_checked :: "string \<Rightarrow> bool \<Rightarrow> page \<Rightarrow> page" where
  "set_checked sel b p = p\<lparr>checked := (checked p)(sel := b)\<rparr>"

definition set_html :: "string \<Rightarrow> string \<Rightarrow> page \<Rightarrow> page" where
  "set_html sel h p = p\<lparr>html := (html p)(sel := h)\<rparr>"

definition showMessage :: "string \<Rightarrow> string \<Rightarrow> page \<Rightarrow> page" where
  "showMessage kind text p = p\<lparr>messages := messages p @ [(kind, text)]\<rparr>"

definition downloadFile :: "string \<Rightarrow> string \<Rightarrow> string \<Rightarrow> page \<Rightarrow> page" where
  "downloadFile content filename mimeType p =
     p\<lparr>downloads := downloads p @
        [\<lparr>dl_content = content, dl_filename = filename, dl_mimeType = mimeType\<rparr>]\<rparr>"

subsection \<open>Clearing\<close>

definition no_logs_html :: string where
  \<open>no_logs_html =
     [CHR 0x0A] @ ''            <div class="text-center py-4">'' @ [CHR 0x0A] @
     ''                <i class="fas fa-clipboard-list fa-2x text-muted mb-2"></i>'' @ [CHR 0x0A] @
     ''                <p class="text-muted">No logs yet</p>'' @ [CHR 0x0A] @
     ''                <small class="text-muted">Processing logs will appear here</small>'' @ [CHR 0x0A] @
     ''            </div>'' @ [CHR 0x0A] @ ''        ''\<close>

text \<open>\<open>confirmed\<close> is the answer of the \<open>confirm\<close> dialog.\<close>

definition clearLogs :: "bool \<Rightarrow> page \<times> logData \<Rightarrow> page \<times> logData" where
  "clearLogs confirmed = (\<lambda>(p, d).
     if confirmed
     then (showMessage ''info'' ''Logs cleared successfully'' (set_html ''#log-content'' no_logs_html p),
           d\<lparr>logs := [], apiCalls := [], rateLimitEvents := [],
             stats := (stats d)\<lparr>errors := 0, warnings := 0\<rparr>\<rparr>)
     else (p, d))"

subsection \<open>Serialising: \<open>JSON.stringify(exportData, null, 2)\<close>\<close>

definition nl :: string where
  "nl = [CHR 0x0A]"

text \<open>\<open>Array.prototype.join\<close> on strings.\<close>

fun join :: "string \<Rightarrow> string list \<Rightarrow> string" where
  "join sep [] = []"
| "join sep [x] = x"
| "join sep (x # y # ys) = x @ sep @ join sep (y # ys)"

definition hex_char :: "nat \<Rightarrow> char" where
  "hex_char d = ''0123456789abcdef'' ! (d mod 16)"

text \<open>
  QuoteJSONString: the quote and the backslash are escaped with a backslash, the control
  characters by their short names or as \<open>u00XX\<close>.
\<close>

definition json_escape :: "char \<Rightarrow> string" where
  "json_escape c =
     (let n = (of_char c :: nat)
      in if c = CHR 0x22 then [CHR 0x5C, CHR 0x22]
         else if c = CHR 0x5C then [CHR 0x5C, CHR 0x5C]
         else if n = 8 then [CHR 0x5C, CHR ''b'']
         else if n = 9 then [CHR 0x5C, CHR ''t'']
         else if n = 10 then [CHR 0x5C, CHR ''n'']
         else if n = 12 then [CHR 0x5C, CHR ''f'']
         else if n = 13 then [CHR 0x5C, CHR ''r'']
         else if n < 32 then [CHR 0x5C, CHR ''u'', CHR ''0'', CHR ''0'',
                              hex_char (n div 16), hex_char (n mod 16)]
         else [c])"

definition json_quote :: "string \<Rightarrow> string" where
  "json_quote s = [CHR 0x22] @ concat (map json_escape s) @ [CHR 0x22]"

text \<open>
  The printer at indentation \<open>ind\<close>, with a gap of two spaces; a number that is not
  finite prints as \<open>null\<close>.
\<close>

fun stringify_at :: "string \<Rightarrow> json \<Rightarrow> string" where
  "stringify_at ind JNull = ''null''"
| "stringify_at ind (JBool b) = (if b then ''true'' else ''false'')"
| "stringify_at ind (JNum n) = (case n of Dec m k \<Rightarrow> num_toString n | _ \<Rightarrow> ''null'')"
| "stringify_at ind (JStr s) = json_quote s"
| "stringify_at ind (JArr xs) =
     (if xs = [] then ''[]''
      else ''['' @ nl @
           join ('','' @ nl) (map (\<lambda>x. (ind @ ''  '') @ stringify_at (ind @ ''  '') x) xs) @
           nl @ ind @ '']'')"
| "stringify_at ind (JObj kvs) =
     (if kvs = [] then ''{}''
      else ''{'' @ nl @
           join ('','' @ nl)
             (map (\<lambda>kv. (ind @ ''  '') @ json_quote (fst kv) @ '': '' @
                        stringify_at (ind @ ''  '') (snd kv)) kvs) @
           nl @ ind @ ''}'')"

definition JSON_stringify :: "json \<Rightarrow> string" where
  "JSON_stringify v = stringify_at [] v"

text \<open>The objects as \<open>JSON.stringify\<close> sees them: a property that is \<open>undefined\<close> is left out.\<close>

definition opt_field :: "string \<Rightarrow> ('a \<Rightarrow> json) \<Rightarrow> 'a option \<Rightarrow> (string \<times> json) list" where
  "opt_field k f x = (case x of None \<Rightarrow> [] | Some v \<Rightarrow> [(k, f v)])"

definition log_entry_json :: "log_entry \<Rightarrow> json" where
  "log_entry_json e =
     JObj [(''timestamp'', JStr (log_timestamp e)), (''level'', JStr (log_level e)),
           (''message'', JStr (log_message e)), (''details'', log_details e)]"

definition api_call_json :: "api_call \<Rightarrow> json" where
  "api_call_json c =
     JObj [(''timestamp'', JStr (call_timestamp c)), (''provider'', JStr (call_provider c)),
           (''model'', JStr (call_model c)), (''inputTokens'', JNum (call_inputTokens c)),
           (''outputTokens'', JNum (call_outputTokens c)),
           (''duration'', JNum (call_duration c)),
           (''error'', (case call_error c of None \<Rightarrow> JNull | Some e \<Rightarrow> JStr e))]"

definition rate_limit_event_json :: "rate_limit_event \<Rightarrow> json" where
  "rate_limit_event_json e =
     JObj [(''timestamp'', JStr (ev_timestamp e)), (''type'', JStr (ev_type e)),
           (''provider'', JStr (ev_provider e)), (''limitType'', JStr (ev_limitType e)),
           (''currentUsage'', JNum (ev_currentUsage e)), (''limit'', JNum (ev_limit e)),
           (''message'', JStr (ev_message e)), (''level'', JStr (ev_level e))]"

definition llm_json :: "llm_section \<Rightarrow> json" where
  "llm_json l =
     JObj (opt_field ''type'' JStr (llm_type l) @ opt_field ''api_key'' JStr (api_key l) @
           opt_field ''model'' JStr (model l) @ opt_field ''temperature'' JNum (temperature l) @
           opt_field ''max_tokens'' JNum (max_tokens l))"

definition flow_control_json :: "flow_control_section \<Rightarrow> json" where
  "flow_control_json f =
     JObj (opt_field ''max_reader_search_attempts'' JNum (max_reader_search_attempts f) @
           opt_field ''max_verifier_rejections'' JNum (max_verifier_rejections f) @
           opt_field ''status_sleep_time'' JNum (status_sleep_time f))"

definition docstring_options_json :: "docstring_options_section \<Rightarrow> json" where
  "docstring_options_json o' =
     JObj (opt_field ''overwrite_docstrings'' JBool (overwrite_docstrings o'))"

definition user_overrides_json :: "user_overrides_section \<Rightarrow> json" where
  "user_overrides_json u =
     JObj (opt_field ''enable_conservative_limits'' JBool (enable_conservative_limits u) @
           opt_field ''max_components_per_minute'' JNum (max_components_per_minute u) @
           opt_field ''delay_between_requests'' JNum (delay_between_requests u) @
           opt_field ''enable_batch_processing'' JBool (enable_batch_processing u) @
           opt_field ''batch_size'' JNum (batch_size u))"

definition config_json :: "config \<Rightarrow> json" where
  "config_json c =
     JObj (opt_field ''llm'' llm_json (llm c) @
           opt_field ''flow_control'' flow_control_json (flow_control c) @
           opt_field ''docstring_options'' docstring_options_json (docstring_options c) @
           opt_field ''current_provider_tier'' JStr (current_provider_tier c) @
           opt_field ''user_overrides'' user_overrides_json (user_overrides c))"

text \<open>A \<open>Date\<close> object serialises to its ISO form (\<open>toJSON\<close>).\<close>

definition jstime_json :: "jstime option \<Rightarrow> json" where
  "jstime_json t =
     (case t of None \<Rightarrow> JNull | Some (DateObj isoForm localForm) \<Rightarrow> JStr isoForm | Some (IsoStr s) \<Rightarrow> JStr s)"

definition stats_json :: "stats \<Rightarrow> json" where
  "stats_json st =
     JObj [(''startTime'', jstime_json (startTime st)), (''endTime'', jstime_json (endTime st)),
           (''totalComponents'', JNum (num_of_int (totalComponents st))),
           (''processedComponents'', JNum (num_of_int (processedComponents st))),
           (''errors'', JNum (num_of_int (errors st))),
           (''warnings'', JNum (num_of_int (warnings st)))]"

subsection \<open>The snapshot\<close>

record metadata =
  exportTime :: string
  format :: string
  version :: string

text \<open>
  \<open>exportData\<close>: a section that was not selected is absent (\<open>None\<close>). The stored
  configuration may be \<open>null\<close>, so a selected configuration is \<open>Some None\<close> then.
\<close>

record exportData =
  ex_metadata :: metadata
  ex_logs :: "log_entry list option"
  ex_apiCalls :: "api_call list option"
  ex_rateLimitEvents :: "rate_limit_event list option"
  ex_config :: "config option option"
  ex_stats :: "stats option"

definition metadata_json :: "metadata \<Rightarrow> json" where
  "metadata_json m =
     JObj [(''exportTime'', JStr (exportTime m)), (''format'', JStr (format m)),
           (''version'', JStr (version m))]"

definition exportData_json :: "exportData \<Rightarrow> json" where
  "exportData_json x =
     JObj ([(''metadata'', metadata_json (ex_metadata x))] @
           opt_field ''logs'' (\<lambda>ls. JArr (map log_entry_json ls)) (ex_logs x) @
           opt_field ''apiCalls'' (\<lambda>cs. JArr (map api_call_json cs)) (ex_apiCalls x) @
           opt_field ''rateLimitEvents'' (\<lambda>es. JArr (map rate_limit_event_json es))
             (ex_rateLimitEvents x) @
           opt_field ''config'' (\<lambda>c. case c of None \<Rightarrow> JNull | Some c' \<Rightarrow> config_json c')
             (ex_config x) @
           opt_field ''stats'' stats_json (ex_stats x))"

subsection \<open>\<open>generateTextExport\<close>\<close>

definition str_or :: "string option \<Rightarrow> string \<Rightarrow> string" where
  "str_or x d = (case x of None \<Rightarrow> d | Some s \<Rightarrow> if truthy_str s then s else d)"

text \<open>A time value in a template: a \<open>Date\<close> prints its local form and is always truthy.\<close>

definition jstime_or :: "jstime option \<Rightarrow> string \<Rightarrow> string" where
  "jstime_or t d =
     (case t of
        None \<Rightarrow> d
      | Some (DateObj isoForm localForm) \<Rightarrow> localForm
      | Some (IsoStr s) \<Rightarrow> if truthy_str s then s else d)"

definition text_header :: "metadata \<Rightarrow> string" where
  "text_header m =
     ''Scribe Processing Logs Export'' @ nl @
     ''Generated: '' @ exportTime m @ nl @
     ''Format: '' @ format m @ nl @
     ''Version: '' @ version m @ nl @
     nl @
     replicate 50 CHR ''='' @ nl @
     nl"

definition text_config :: "config \<Rightarrow> string" where
  "text_config c =
     ''CONFIGURATION'' @ nl @
     replicate 20 CHR ''='' @ nl @
     ''Provider: '' @ str_or (case llm c of None \<Rightarrow> None | Some l \<Rightarrow> llm_type l) ''Unknown'' @ nl @
     ''Model: '' @ str_or (case llm c of None \<Rightarrow> None | Some l \<Rightarrow> model l) ''Unknown'' @ nl @
     ''API Tier: '' @ str_or (current_provider_tier c) ''Unknown'' @ nl @
     nl"

definition text_stats :: "stats \<Rightarrow> string" where
  "text_stats st =
     ''PROCESSING STATISTICS'' @ nl @
     replicate 25 CHR ''='' @ nl @
     ''Start Time: '' @ jstime_or (startTime st) ''Unknown'' @ nl @
     ''End Time: '' @ jstime_or (endTime st) ''In Progress'' @ nl @
     ''Total Components: '' @ int_toString (totalComponents st) @ nl @
     ''Processed Components: '' @ int_toString (processedComponents st) @ nl @
     ''Errors: '' @ int_toString (errors st) @ nl @
     ''Warnings: '' @ int_toString (warnings st) @ nl @
     nl"

definition text_log :: "log_entry \<Rightarrow> string" where
  "text_log e = ''['' @ log_timestamp e @ ''] '' @ log_level e @ '': '' @ log_message e @ nl"

definition text_call :: "api_call \<Rightarrow> string" where
  "text_call c =
     ''['' @ call_timestamp c @ ''] '' @ call_provider c @ '' - '' @ call_model c @ nl @
     ''  Request: '' @ num_toString (call_inputTokens c) @ '' tokens'' @ nl @
     ''  Response: '' @ num_toString (call_outputTokens c) @ '' tokens'' @ nl @
     ''  Duration: '' @ num_toString (call_duration c) @ ''ms'' @ nl @
     (case call_error c of
        None \<Rightarrow> []
      | Some e \<Rightarrow> if truthy_str e then ''  Error: '' @ e @ nl else []) @
     nl"

definition text_event :: "rate_limit_event \<Rightarrow> string" where
  "text_event e =
     ''['' @ ev_timestamp e @ ''] '' @ ev_type e @ '': '' @ ev_message e @ nl @
     ''  Provider: '' @ ev_provider e @ nl @
     ''  Limit: '' @ ev_limitType e @ nl @
     ''  Current Usage: '' @ num_toString (ev_currentUsage e) @ ''/'' @
       num_toString (ev_limit e) @ nl @ nl"

text \<open>A section is rendered when it is in the snapshot and, for a sequence, not empty.\<close>

definition generateTextExport :: "exportData \<Rightarrow> string" where
  "generateTextExport data =
     text_header (ex_metadata data) @
     (case ex_config data of Some (Some c) \<Rightarrow> text_config c | _ \<Rightarrow> []) @
     (case ex_stats data of Some st \<Rightarrow> text_stats st | None \<Rightarrow> []) @
     (case ex_logs data of
        Some ls \<Rightarrow>
          if length ls > 0
          then ''PROCESSING LOGS'' @ nl @ replicate 20 CHR ''='' @ nl @
               concat (map text_log ls) @ nl
          else []
      | None \<Rightarrow> []) @
     (case ex_apiCalls data of
        Some cs \<Rightarrow>
          if length cs > 0
          then ''API CALLS'' @ nl @ replicate 15 CHR ''='' @ nl @ concat (map text_call cs)
          else []
      | None \<Rightarrow> []) @
     (case ex_rateLimitEvents data of
        Some es \<Rightarrow>
          if length es > 0
          then ''RATE LIMIT EVENTS'' @ nl @ replicate 20 CHR ''='' @ nl @
               concat (map text_event es)
          else []
      | None \<Rightarrow> [])"

subsection \<open>\<open>generateCSVExport\<close>\<close>

text \<open>\<open>s.replace(/"/g, '""')\<close>: every double quote is doubled.\<close>

definition double_quotes :: "string \<Rightarrow> string" where
  "double_quotes s = concat (map (\<lambda>c. if c = CHR 0x22 then [CHR 0x22, CHR 0x22] else [c]) s)"

text \<open>A template \<open>"${x}"\<close>: the text between two double quotes, as it is.\<close>

definition quoted :: "string \<Rightarrow> string" where
  "quoted s = [CHR 0x22] @ s @ [CHR 0x22]"

definition csv_headers :: "string list" where
  "csv_headers = [''Timestamp'', ''Type'', ''Level'', ''Provider'', ''Model'', ''Message'', ''Details'']"

definition csv_log_row :: "log_entry \<Rightarrow> string list" where
  "csv_log_row e =
     [quoted (log_timestamp e), quoted ''Log'', quoted (log_level e), quoted [], quoted [],
      quoted (double_quotes (log_message e)), quoted []]"

definition csv_call_row :: "api_call \<Rightarrow> string list" where
  "csv_call_row c =
     [quoted (call_timestamp c), quoted ''API Call'', quoted ''INFO'',
      quoted (call_provider c), quoted (call_model c),
      quoted (''API Call - '' @ num_toString (call_inputTokens c) @ '' input, '' @
              num_toString (call_outputTokens c) @ '' output tokens''),
      quoted (''Duration: '' @ num_toString (call_duration c) @ ''ms'' @
              (case call_error c of
                 None \<Rightarrow> []
               | Some e \<Rightarrow> if truthy_str e then '', Error: '' @ e else []))]"

definition csv_event_row :: "rate_limit_event \<Rightarrow> string list" where
  "csv_event_row e =
     [quoted (ev_timestamp e), quoted ''Rate Limit'', quoted (ev_level e),
      quoted (ev_provider e), quoted [],
      quoted (double_quotes (ev_message e)),
      quoted (ev_limitType e @ '': '' @ num_toString (ev_currentUsage e) @ ''/'' @
              num_toString (ev_limit e))]"

definition csv_line :: "string list \<Rightarrow> string" where
  "csv_line row = join '','' row @ nl"

definition generateCSVExport :: "exportData \<Rightarrow> string" where
  "generateCSVExport data =
     csv_line csv_headers @
     (case ex_logs data of
        Some ls \<Rightarrow> if length ls > 0 then concat (map (\<lambda>e. csv_line (csv_log_row e)) ls) else []
      | None \<Rightarrow> []) @
     (case ex_apiCalls data of
        Some cs \<Rightarrow> if length cs > 0 then concat (map (\<lambda>c. csv_line (csv_call_row c)) cs) else []
      | None \<Rightarrow> []) @
     (case ex_rateLimitEvents data of
        Some es \<Rightarrow> if length es > 0 then concat (map (\<lambda>e. csv_line (csv_event_row e)) es) else []
      | None \<Rightarrow> [])"

subsection \<open>\<open>exportLogs\<close>\<close>

text \<open>
  The default file name: \<open>scribe-logs-\<close> and the ISO time with \<open>:\<close> and \<open>.\<close> replaced by
  \<open>-\<close> and the last five characters cut (\<open>slice(0, -5)\<close>).
\<close>

definition default_filename :: "string \<Rightarrow> string" where
  "default_filename now =
     (let t = map (\<lambda>c. if c = CHR '':'' \<or> c = CHR ''.'' then CHR ''-'' else c) now
      in ''scribe-logs-'' @ take (length t - 5) t)"

definition showExportModal :: "string \<Rightarrow> page \<Rightarrow> page" where
  "showExportModal now p = (set_val ''#export-filename'' (default_filename now) p)\<lparr>modal_open := True\<rparr>"

definition collect_exportData :: "string \<Rightarrow> string \<Rightarrow> page \<Rightarrow> logData \<Rightarrow> exportData" where
  "collect_exportData now fmt p d =
     \<lparr>ex_metadata = \<lparr>exportTime = now, format = fmt, version = ''1.0''\<rparr>,
      ex_logs = (if checked p ''#include-logs'' then Some (logs d) else None),
      ex_apiCalls = (if checked p ''#include-api-calls'' then Some (apiCalls d) else None),
      ex_rateLimitEvents =
        (if checked p ''#include-rate-limits'' then Some (rateLimitEvents d) else None),
      ex_config = (if checked p ''#include-config'' then Some (config d) else None),
      ex_stats = (if checked p ''#include-stats'' then Some (stats d) else None)\<rparr>"

text \<open>
  \<open>exportLogs\<close> reads the clock for the default file name (\<open>now\<close>, used only when the
  file name field is empty) and for the export time (\<open>now'\<close>). It changes the page only;
  the result of the \<open>default\<close> branch is the page with the error message added.
\<close>

definition exportLogs :: "string \<Rightarrow> string \<Rightarrow> logData \<Rightarrow> page \<Rightarrow> page" where
  "exportLogs now now' d p =
     (let fmt = vals p ''#export-format'';
          filename = (if truthy_str (vals p ''#export-filename'')
                      then vals p ''#export-filename'' else default_filename now);
          exportData = collect_exportData now' fmt p d;
          finish = (\<lambda>content mimeType extension.
             showMessage ''success''
               (''Logs exported successfully as '' @ filename @ ''.'' @ extension)
               ((downloadFile content (filename @ ''.'' @ extension) mimeType p)
                  \<lparr>modal_open := False\<rparr>))
      in if fmt = ''json''
           then finish (JSON_stringify (exportData_json exportData)) ''application/json'' ''json''
         else if fmt = ''txt''
           then finish (generateTextExport exportData) ''text/plain'' ''txt''
         else if fmt = ''csv''
           then finish (generateCSVExport exportData) ''text/csv'' ''csv''
         else showMessage ''error'' ''Unknown export format'' p)"

section \<open>The configuration binder: \<open>config.js\<close>\<close>

text \<open>
  The source holds the script twice; the second copy, with the provider tier, the user
  overrides and the limits display, declares the functions last and is the one modelled.
\<close>

subsection \<open>\<open>updateProviderLimitsDisplay\<close>\<close>

record limits =
  requests :: int
  lim_input :: string
  lim_output :: string
  lim_tier :: string

text \<open>The static table \<open>providerLimits\<close>: provider, then tier.\<close>

definition providerLimits :: "(string \<times> (string \<times> limits) list) list" where
  "providerLimits =
     [(''gemini'',
        [(''free'', \<lparr>requests = 150, lim_input = ''1M'', lim_output = ''1M'', lim_tier = ''Free''\<rparr>),
         (''pay_as_you_go'',
            \<lparr>requests = 150, lim_input = ''1M'', lim_output = ''1M'', lim_tier = ''Pay-as-you-go''\<rparr>),
         (''enterprise'',
            \<lparr>requests = 150, lim_input = ''1M'', lim_output = ''1M'', lim_tier = ''Enterprise''\<rparr>)]),
      (''claude'',
        [(''standard'', \<lparr>requests = 50, lim_input = ''20K'', lim_output = ''8K'', lim_tier = ''Standard''\<rparr>),
         (''premium'',
            \<lparr>requests = 500, lim_input = ''200K'', lim_output = ''100K'', lim_tier = ''Premium''\<rparr>)]),
      (''openai'',
        [(''standard'',
            \<lparr>requests = 500, lim_input = ''200K'', lim_output = ''100K'', lim_tier = ''Standard''\<rparr>),
         (''premium'',
            \<lparr>requests = 10000, lim_input = ''2M'', lim_output = ''1M'', lim_tier = ''Premium''\<rparr>)])]"

text \<open>
  An index into the table is a property read of a JavaScript object, which answers the
  own keys of the object and, through the prototype chain, the properties of the
  built-in objects of the runtime. Those that two reads from the table can meet are the
  prototype of all objects, the prototype of all functions, and the built-in functions
  (with their \<open>name\<close> and \<open>length\<close>), as ECMAScript defines them.
\<close>

datatype native = ObjectPrototype | FunctionPrototype | BuiltinFunction string nat

datatype error = TypeError

text \<open>
  The value of \<open>providerLimits[provider]\<close> is \<open>undefined\<close>, a tier table of the source or a
  built-in object; the value of \<open>providerLimits[provider][tier]\<close> is an entry of the
  source, a built-in object, or a primitive value.
\<close>

datatype holder = NoProperty | Tiers "(string \<times> limits) list" | NativeObject native

datatype jsvalue =
    VUndefined
  | VNull
  | VNumber jsnum
  | VString string
  | VLimits limits
  | VNative native

fun truthy_value :: "jsvalue \<Rightarrow> bool" where
  "truthy_value VUndefined = False"
| "truthy_value VNull = False"
| "truthy_value (VNumber n) = truthy_num n"
| "truthy_value (VString s) = truthy_str s"
| "truthy_value (VLimits l) = True"
| "truthy_value (VNative n) = True"

text \<open>The methods of the three built-in objects, each with its \<open>length\<close>.\<close>

definition object_prototype_methods :: "(string \<times> nat) list" where
  "object_prototype_methods =
     [(''__defineGetter__'', 2), (''__defineSetter__'', 2), (''hasOwnProperty'', 1),
      (''__lookupGetter__'', 1), (''__lookupSetter__'', 1), (''isPrototypeOf'', 1),
      (''propertyIsEnumerable'', 1), (''toLocaleString'', 0), (''toString'', 0),
      (''valueOf'', 0)]"

definition function_prototype_methods :: "(string \<times> nat) list" where
  "function_prototype_methods = [(''apply'', 2), (''bind'', 1), (''call'', 1), (''toString'', 0)]"

definition object_statics :: "(string \<times> nat) list" where
  "object_statics =
     [(''assign'', 2), (''create'', 2), (''defineProperties'', 2), (''defineProperty'', 3),
      (''entries'', 1), (''freeze'', 1), (''fromEntries'', 1),
      (''getOwnPropertyDescriptor'', 2), (''getOwnPropertyDescriptors'', 1),
      (''getOwnPropertyNames'', 1), (''getOwnPropertySymbols'', 1), (''getPrototypeOf'', 1),
      (''groupBy'', 2), (''hasOwn'', 2), (''is'', 2), (''isExtensible'', 1), (''isFrozen'', 1),
      (''isSealed'', 1), (''keys'', 1), (''preventExtensions'', 1), (''seal'', 1),
      (''setPrototypeOf'', 2), (''values'', 1)]"

definition method_of :: "(string \<times> nat) list \<Rightarrow> string \<Rightarrow> jsvalue option" where
  "method_of ms k = map_option (\<lambda>n. VNative (BuiltinFunction k n)) (map_of ms k)"

text \<open>
  The own properties of the prototype of all objects, \<open>__proto__\<close> apart (an accessor
  that answers the prototype of the object the read started from).
\<close>

definition object_prototype_own :: "string \<Rightarrow> jsvalue option" where
  "object_prototype_own k =
     (if k = ''constructor'' then Some (VNative (BuiltinFunction ''Object'' 1))
      else method_of object_prototype_methods k)"

text \<open>
  The own properties of the prototype of all functions, its \<open>name\<close> and \<open>length\<close> apart.
  \<open>caller\<close> and \<open>arguments\<close> are accessors that throw on a built-in function.
\<close>

definition function_prototype_own :: "string \<Rightarrow> (error + jsvalue) option" where
  "function_prototype_own k =
     (if k = ''caller'' \<or> k = ''arguments'' then Some (Inl TypeError)
      else if k = ''constructor'' then Some (Inr (VNative (BuiltinFunction ''Function'' 1)))
      else map_option Inr (method_of function_prototype_methods k))"

text \<open>What a plain object, and what a built-in function, answers for a key it does not own.\<close>

definition inherited_by_object :: "string \<Rightarrow> jsvalue" where
  "inherited_by_object k =
     (if k = ''__proto__'' then VNative ObjectPrototype
      else case object_prototype_own k of Some v \<Rightarrow> v | None \<Rightarrow> VUndefined)"

definition inherited_by_function :: "string \<Rightarrow> error + jsvalue" where
  "inherited_by_function k =
     (if k = ''__proto__'' then Inr (VNative FunctionPrototype)
      else case function_prototype_own k of
             Some r \<Rightarrow> r
           | None \<Rightarrow> Inr (case object_prototype_own k of Some v \<Rightarrow> v | None \<Rightarrow> VUndefined))"

text \<open>The names that a plain object answers without owning them.\<close>

definition inherited_names :: "string list" where
  "inherited_names = ''__proto__'' # ''constructor'' # map fst object_prototype_methods"

text \<open>\<open>providerLimits[provider]\<close>.\<close>

definition get_provider :: "string \<Rightarrow> holder" where
  "get_provider provider =
     (case map_of providerLimits provider of
        Some tiers \<Rightarrow> Tiers tiers
      | None \<Rightarrow>
          (case inherited_by_object provider of
             VNative n \<Rightarrow> NativeObject n
           | _ \<Rightarrow> NoProperty))"

text \<open>
  \<open>h[tier]\<close> for the value \<open>h\<close> of \<open>providerLimits[provider]\<close>. (The source reads it only of
  a truthy \<open>h\<close>; a property read of \<open>undefined\<close> throws.)
\<close>

fun get_tier :: "holder \<Rightarrow> string \<Rightarrow> error + jsvalue" where
  "get_tier NoProperty k = Inl TypeError"
| "get_tier (Tiers tiers) k =
     Inr (case map_of tiers k of Some l \<Rightarrow> VLimits l | None \<Rightarrow> inherited_by_object k)"
| "get_tier (NativeObject ObjectPrototype) k =
     Inr (if k = ''__proto__'' then VNull
          else case object_prototype_own k of Some v \<Rightarrow> v | None \<Rightarrow> VUndefined)"
| "get_tier (NativeObject FunctionPrototype) k =
     (if k = ''length'' then Inr (VNumber (Dec 0 0))
      else if k = ''name'' then Inr (VString [])
      else if k = ''__proto__'' then Inr (VNative ObjectPrototype)
      else inherited_by_function k)"
| "get_tier (NativeObject (BuiltinFunction f len)) k =
     (if k = ''length'' then Inr (VNumber (Dec (int len) 0))
      else if k = ''name'' then Inr (VString f)
      else if f = ''Object'' \<and> k = ''prototype'' then Inr (VNative ObjectPrototype)
      else if f = ''Function'' \<and> k = ''prototype'' then Inr (VNative FunctionPrototype)
      else case (if f = ''Object'' then method_of object_statics k else None) of
             Some v \<Rightarrow> Inr v
           | None \<Rightarrow> inherited_by_function k)"

text \<open>
  The variable \<open>limits\<close> after the \<open>if\<close>: \<open>null\<close>, or the value of
  \<open>providerLimits[provider][tier]\<close> when both reads are truthy; or the exception of the
  second read.
\<close>

definition find_limits :: "string \<Rightarrow> string \<Rightarrow> error + jsvalue" where
  "find_limits provider tr =
     (case get_provider provider of
        NoProperty \<Rightarrow> Inr VNull
      | h \<Rightarrow>
          (case get_tier h tr of
             Inl e \<Rightarrow> Inl e
           | Inr v \<Rightarrow> Inr (if truthy_value v then v else VNull)))"

text \<open>
  \<open>Math.floor(limits.requests * 0.8)\<close> on an integer request limit: the floor of eight
  tenths.
\<close>

definition effectiveRequests :: "limits \<Rightarrow> int" where
  "effectiveRequests l = (requests l * 8) div 10"

text \<open>
  The texts that the template takes from \<open>limits\<close>. An entry of the source gives its four
  fields. Any other truthy value (a built-in object or function, a string, a number) has
  no property of these four names: each read is \<open>undefined\<close>, and the effective quota,
  computed from \<open>undefined\<close>, is \<open>NaN\<close>.
\<close>

definition requests_text :: "jsvalue \<Rightarrow> string" where
  "requests_text v = (case v of VLimits l \<Rightarrow> int_toString (requests l) | _ \<Rightarrow> ''undefined'')"

definition effective_text :: "jsvalue \<Rightarrow> string" where
  "effective_text v =
     (case v of VLimits l \<Rightarrow> int_toString (effectiveRequests l) | _ \<Rightarrow> ''NaN'')"

definition field_text :: "(limits \<Rightarrow> string) \<Rightarrow> jsvalue \<Rightarrow> string" where
  "field_text f v = (case v of VLimits l \<Rightarrow> f l | _ \<Rightarrow> ''undefined'')"

definition limits_html :: "jsvalue \<Rightarrow> string" where
  \<open>limits_html v =
     nl @
     ''            <div class="row">'' @ nl @
     ''                <div class="col-6">'' @ nl @
     ''                    <small><strong>Requests/Min:</strong><br>'' @
       requests_text v @ '' (using '' @ effective_text v @ '')</small>'' @ nl @
     ''                </div>'' @ nl @
     ''                <div class="col-6">'' @ nl @
     ''                    <small><strong>Input Tokens:</strong><br>'' @
       field_text lim_input v @ ''</small>'' @ nl @
     ''                </div>'' @ nl @
     ''            </div>'' @ nl @
     ''            <div class="row mt-1">'' @ nl @
     ''                <div class="col-6">'' @ nl @
     ''                    <small><strong>Output Tokens:</strong><br>'' @
       field_text lim_output v @ ''</small>'' @ nl @
     ''                </div>'' @ nl @
     ''                <div class="col-6">'' @ nl @
     ''                    <small><strong>Tier:</strong><br>'' @
       field_text lim_tier v @ ''</small>'' @ nl @
     ''                </div>'' @ nl @
     ''            </div>'' @ nl @
     ''        ''\<close>

definition limits_placeholder :: string where
  \<open>limits_placeholder = ''<small class="text-muted">Select provider and tier to see limits</small>''\<close>

text \<open>
  \<open>updateProviderLimitsDisplay_run\<close> is the call: the page with the display written, or
  the exception of the lookup, thrown before anything is written.
  \<open>updateProviderLimitsDisplay\<close> is the page after the call, however it ended.
\<close>

definition updateProviderLimitsDisplay_run :: "page \<Rightarrow> error + page" where
  "updateProviderLimitsDisplay_run p =
     (let provider = vals p ''#llm-type'';
          tr = vals p ''#provider-tier''
      in case find_limits provider tr of
           Inl e \<Rightarrow> Inl e
         | Inr limits \<Rightarrow>
             Inr (if truthy_value limits
                  then set_html ''#provider-limits-display'' (limits_html limits) p
                  else set_html ''#provider-limits-display'' limits_placeholder p))"

definition updateProviderLimitsDisplay :: "page \<Rightarrow> page" where
  "updateProviderLimitsDisplay p =
     (case updateProviderLimitsDisplay_run p of Inl e \<Rightarrow> p | Inr p' \<Rightarrow> p')"

subsection \<open>\<open>applyConfigToForm\<close>\<close>

text \<open>
  \<open>x || d\<close> on an optional number, then jQuery's \<open>val\<close> of a number: the string of \<open>x\<close>
  when \<open>x\<close> is there and truthy, of the fallback \<open>d\<close> otherwise.
\<close>

definition num_or :: "jsnum option \<Rightarrow> jsnum \<Rightarrow> jsnum" where
  "num_or x d = (case x of None \<Rightarrow> d | Some n \<Rightarrow> if truthy_num n then n else d)"

text \<open>\<open>x || false\<close> and \<open>x !== false\<close> on an optional boolean.\<close>

definition bool_or_false :: "bool option \<Rightarrow> bool" where
  "bool_or_false x = (case x of None \<Rightarrow> False | Some b \<Rightarrow> b)"

definition not_false :: "bool option \<Rightarrow> bool" where
  "not_false x = (case x of None \<Rightarrow> True | Some b \<Rightarrow> b)"

definition apply_llm :: "llm_section option \<Rightarrow> page \<Rightarrow> page" where
  "apply_llm sec p =
     (case sec of
        None \<Rightarrow> p
      | Some l \<Rightarrow>
          set_val ''#llm-max-tokens'' (num_toString (num_or (max_tokens l) (Dec 16384 0)))
         (set_val ''#llm-temperature'' (num_toString (num_or (temperature l) (Dec 1 1)))
         (set_val ''#llm-model'' (str_or (model l) ''gemini-2.5-pro'')
         (set_val ''#llm-api-key'' (str_or (api_key l) [])
         (set_val ''#llm-type'' (str_or (llm_type l) ''gemini'') p)))))"

definition apply_tier :: "string option \<Rightarrow> page \<Rightarrow> page" where
  "apply_tier t p =
     (case t of
        None \<Rightarrow> p
      | Some s \<Rightarrow> if truthy_str s then set_val ''#provider-tier'' s p else p)"

definition apply_user_overrides :: "user_overrides_section option \<Rightarrow> page \<Rightarrow> page" where
  "apply_user_overrides sec p =
     (case sec of
        None \<Rightarrow> p
      | Some u \<Rightarrow>
          set_val ''#batch-size'' (num_toString (num_or (batch_size u) (Dec 3 0)))
         (set_checked ''#enable-batch-processing'' (not_false (enable_batch_processing u))
         (set_val ''#delay-between-requests''
            (num_toString (num_or (delay_between_requests u) (Dec 2000 0)))
         (set_val ''#max-components-per-minute''
            (num_toString (num_or (max_components_per_minute u) (Dec 8 0)))
         (set_checked ''#enable-conservative-limits''
            (not_false (enable_conservative_limits u)) p)))))"

definition apply_flow_control :: "flow_control_section option \<Rightarrow> page \<Rightarrow> page" where
  "apply_flow_control sec p =
     (case sec of
        None \<Rightarrow> p
      | Some f \<Rightarrow>
          set_val ''#status-sleep-time'' (num_toString (num_or (status_sleep_time f) (Dec 1 0)))
         (set_val ''#max-verifier-rejections''
            (num_toString (num_or (max_verifier_rejections f) (Dec 1 0)))
         (set_val ''#max-reader-search-attempts''
            (num_toString (num_or (max_reader_search_attempts f) (Dec 2 0))) p)))"

definition apply_docstring_options :: "docstring_options_section option \<Rightarrow> page \<Rightarrow> page" where
  "apply_docstring_options sec p =
     (case sec of
        None \<Rightarrow> p
      | Some o' \<Rightarrow> set_checked ''#overwrite-docstrings'' (bool_or_false (overwrite_docstrings o')) p)"

text \<open>
  The five steps in the order of the source, the display refreshed in the middle. When
  the refresh throws, the call ends there: the first three steps are done, the last two
  are not. \<open>applyConfigToForm_run\<close> gives the exception, if any, and the page;
  \<open>applyConfigToForm\<close> is the page after the call, however it ended.
\<close>

definition applyConfigToForm_run :: "config \<Rightarrow> page \<Rightarrow> error option \<times> page" where
  "applyConfigToForm_run c p =
     (let p1 = apply_user_overrides (user_overrides c)
                 (apply_tier (current_provider_tier c)
                 (apply_llm (llm c) p))
      in case updateProviderLimitsDisplay_run p1 of
           Inl e \<Rightarrow> (Some e, p1)
         | Inr p2 \<Rightarrow>
             (None,
              apply_docstring_options (docstring_options c)
                (apply_flow_control (flow_control c) p2)))"

definition applyConfigToForm :: "config \<Rightarrow> page \<Rightarrow> page" where
  "applyConfigToForm c p = snd (applyConfigToForm_run c p)"

definition applyConfigToForm_returns :: "config \<Rightarrow> page \<Rightarrow> bool" where
  "applyConfigToForm_returns c p = (fst (applyConfigToForm_run c p) = None)"

subsection \<open>\<open>buildConfigFromForm\<close>\<close>

definition buildConfigFromForm :: "page \<Rightarrow> config" where
  "buildConfigFromForm p =
     \<lparr>llm = Some
        \<lparr>llm_type = Some (vals p ''#llm-type''),
         api_key = Some (vals p ''#llm-api-key''),
         model = Some (vals p ''#llm-model''),
         temperature = Some (parseFloat (vals p ''#llm-temperature'')),
         max_tokens = Some (parseInt (vals p ''#llm-max-tokens''))\<rparr>,
      flow_control = Some
        \<lparr>max_reader_search_attempts = Some (parseInt (vals p ''#max-reader-search-attempts'')),
         max_verifier_rejections = Some (parseInt (vals p ''#max-verifier-rejections'')),
         status_sleep_time = Some (parseFloat (vals p ''#status-sleep-time''))\<rparr>,
      docstring_options = Some
        \<lparr>overwrite_docstrings = Some (checked p ''#overwrite-docstrings'')\<rparr>,
      current_provider_tier = Some (vals p ''#provider-tier''),
      user_overrides = Some
        \<lparr>enable_conservative_limits = Some (checked p ''#enable-conservative-limits''),
         max_components_per_minute = Some (parseInt (vals p ''#max-components-per-minute'')),
         delay_between_requests = Some (parseInt (vals p ''#delay-between-requests'')),
         enable_batch_processing = Some (checked p ''#enable-batch-processing''),
         batch_size = Some (parseInt (vals p ''#batch-size''))\<rparr>\<rparr>"

text \<open>\<open>loadDefaultConfig\<close>: the answer of the request is a configuration or a failure.\<close>

definition loadDefaultConfig :: "config option \<Rightarrow> page \<Rightarrow> page" where
  "loadDefaultConfig response p =
     (case response of
        Some c \<Rightarrow> applyConfigToForm c p
      | None \<Rightarrow>
          showMessage ''warning''
            ''Failed to load default configuration. Using fallback values.'' p)"

section \<open>Notions of the specification\<close>

subsection \<open>Full records and the expected round trip\<close>

text \<open>
  A full configuration record has every section and, in every section, every field.
\<close>

definition is_some :: "'a option \<Rightarrow> bool" where
  "is_some x = (case x of None \<Rightarrow> False | Some _ \<Rightarrow> True)"

definition full_config :: "config \<Rightarrow> bool" where
  "full_config c =
     ((case llm c of
         None \<Rightarrow> False
       | Some l \<Rightarrow> is_some (llm_type l) \<and> is_some (api_key l) \<and> is_some (model l) \<and>
                  is_some (temperature l) \<and> is_some (max_tokens l)) \<and>
      (case flow_control c of
         None \<Rightarrow> False
       | Some f \<Rightarrow> is_some (max_reader_search_attempts f) \<and>
                  is_some (max_verifier_rejections f) \<and> is_some (status_sleep_time f)) \<and>
      (case docstring_options c of
         None \<Rightarrow> False
       | Some o' \<Rightarrow> is_some (overwrite_docstrings o')) \<and>
      is_some (current_provider_tier c) \<and>
      (case user_overrides c of
         None \<Rightarrow> False
       | Some u \<Rightarrow> is_some (enable_conservative_limits u) \<and>
                  is_some (max_components_per_minute u) \<and>
                  is_some (delay_between_requests u) \<and>
                  is_some (enable_batch_processing u) \<and> is_some (batch_size u)))"

text \<open>
  The fields that \<open>applyConfigToForm\<close> passes through \<open>||\<close> are truthy: a string is not
  empty, a number is neither \<open>0\<close> nor \<open>NaN\<close>.
\<close>

definition truthy_str_opt :: "string option \<Rightarrow> bool" where
  "truthy_str_opt x = (case x of None \<Rightarrow> False | Some s \<Rightarrow> truthy_str s)"

definition truthy_num_opt :: "jsnum option \<Rightarrow> bool" where
  "truthy_num_opt x = (case x of None \<Rightarrow> False | Some n \<Rightarrow> truthy_num n)"

definition truthy_fields :: "config \<Rightarrow> bool" where
  "truthy_fields c =
     ((case llm c of
         None \<Rightarrow> False
       | Some l \<Rightarrow> truthy_str_opt (llm_type l) \<and> truthy_str_opt (model l) \<and>
                  truthy_num_opt (temperature l) \<and> truthy_num_opt (max_tokens l)) \<and>
      (case flow_control c of
         None \<Rightarrow> False
       | Some f \<Rightarrow> truthy_num_opt (max_reader_search_attempts f) \<and>
                  truthy_num_opt (max_verifier_rejections f) \<and>
                  truthy_num_opt (status_sleep_time f)) \<and>
      truthy_str_opt (current_provider_tier c) \<and>
      (case user_overrides c of
         None \<Rightarrow> False
       | Some u \<Rightarrow> truthy_num_opt (max_components_per_minute u) \<and>
                  truthy_num_opt (delay_between_requests u) \<and>
                  truthy_num_opt (batch_size u)))"

text \<open>
  Every form control keeps the string that \<open>applyConfigToForm\<close> writes to it from the
  record: reading the control afterwards gives that string (for a number, its string form).
\<close>

definition kept_str :: "page \<Rightarrow> string \<Rightarrow> string option \<Rightarrow> bool" where
  "kept_str p sel x = (case x of None \<Rightarrow> False | Some s \<Rightarrow> control p sel s = s)"

definition kept_num :: "page \<Rightarrow> string \<Rightarrow> jsnum option \<Rightarrow> bool" where
  "kept_num p sel x =
     (case x of None \<Rightarrow> False | Some n \<Rightarrow> control p sel (num_toString n) = num_toString n)"

definition form_keeps :: "config \<Rightarrow> page \<Rightarrow> bool" where
  "form_keeps c p =
     ((case llm c of
         None \<Rightarrow> False
       | Some l \<Rightarrow> kept_str p ''#llm-type'' (llm_type l) \<and>
                  kept_str p ''#llm-api-key'' (api_key l) \<and>
                  kept_str p ''#llm-model'' (model l) \<and>
                  kept_num p ''#llm-temperature'' (temperature l) \<and>
                  kept_num p ''#llm-max-tokens'' (max_tokens l)) \<and>
      (case flow_control c of
         None \<Rightarrow> False
       | Some f \<Rightarrow> kept_num p ''#max-reader-search-attempts'' (max_reader_search_attempts f) \<and>
                  kept_num p ''#max-verifier-rejections'' (max_verifier_rejections f) \<and>
                  kept_num p ''#status-sleep-time'' (status_sleep_time f)) \<and>
      kept_str p ''#provider-tier'' (current_provider_tier c) \<and>
      (case user_overrides c of
         None \<Rightarrow> False
       | Some u \<Rightarrow> kept_num p ''#max-components-per-minute'' (max_components_per_minute u) \<and>
                  kept_num p ''#delay-between-requests'' (delay_between_requests u) \<and>
                  kept_num p ''#batch-size'' (batch_size u)))"

text \<open>
  What the specification expects of the round trip, in its own words: the record itself,
  each numeric field replaced by the number parsed from its string form (\<open>parseFloat\<close>
  for the temperature and the sleep time, \<open>parseInt\<close> for the rest).
\<close>

definition parsed_float :: "jsnum \<Rightarrow> jsnum" where
  "parsed_float n = parseFloat (num_toString n)"

definition parsed_int :: "jsnum \<Rightarrow> jsnum" where
  "parsed_int n = parseInt (num_toString n)"

definition parsed_forms :: "config \<Rightarrow> config" where
  "parsed_forms c =
     \<lparr>llm = map_option
        (\<lambda>l. l\<lparr>temperature := map_option parsed_float (temperature l),
               max_tokens := map_option parsed_int (max_tokens l)\<rparr>) (llm c),
      flow_control = map_option
        (\<lambda>f. f\<lparr>max_reader_search_attempts := map_option parsed_int (max_reader_search_attempts f),
               max_verifier_rejections := map_option parsed_int (max_verifier_rejections f),
               status_sleep_time := map_option parsed_float (status_sleep_time f)\<rparr>)
        (flow_control c),
      docstring_options = docstring_options c,
      current_provider_tier = current_provider_tier c,
      user_overrides = map_option
        (\<lambda>u. u\<lparr>max_components_per_minute := map_option parsed_int (max_components_per_minute u),
               delay_between_requests := map_option parsed_int (delay_between_requests u),
               batch_size := map_option parsed_int (batch_size u)\<rparr>) (user_overrides c)\<rparr>"

subsection \<open>Concrete inputs\<close>

text \<open>An empty page of text inputs: every field empty, every checkbox unchecked.\<close>

definition page0 :: page where
  "page0 = \<lparr>vals = (\<lambda>_. []), control = (\<lambda>_. text_input), checked = (\<lambda>_. False),
            html = (\<lambda>_. []), messages = [], downloads = [], modal_open = False\<rparr>"

text \<open>The fallback values of the source as a full record.\<close>

definition cfg_defaults :: config where
  "cfg_defaults =
     \<lparr>llm = Some \<lparr>llm_type = Some ''gemini'', api_key = Some [], model = Some ''gemini-2.5-pro'',
                  temperature = Some (Dec 1 1), max_tokens = Some (Dec 16384 0)\<rparr>,
      flow_control = Some \<lparr>max_reader_search_attempts = Some (Dec 2 0),
                           max_verifier_rejections = Some (Dec 1 0),
                           status_sleep_time = Some (Dec 1 0)\<rparr>,
      docstring_options = Some \<lparr>overwrite_docstrings = Some False\<rparr>,
      current_provider_tier = Some ''free'',
      user_overrides = Some \<lparr>enable_conservative_limits = Some False,
                             max_components_per_minute = Some (Dec 8 0),
                             delay_between_requests = Some (Dec 2000 0),
                             enable_batch_processing = Some True,
                             batch_size = Some (Dec 3 0)\<rparr>\<rparr>"


text \<open>The same record with an API key that ends in a carriage return and a line feed.\<close>

definition cfg_newline :: config where
  "cfg_newline =
     cfg_defaults\<lparr>llm := Some \<lparr>llm_type = Some ''gemini'',
                                 api_key = Some (''sk-abc'' @ [CHR 0x0D, CHR 0x0A]),
                                 model = Some ''gemini-2.5-pro'', temperature = Some (Dec 1 1),
                                 max_tokens = Some (Dec 16384 0)\<rparr>\<rparr>"

text \<open>The same record with a provider and a tier on which the limits lookup throws.\<close>

definition cfg_caller :: config where
  "cfg_caller =
     cfg_defaults\<lparr>llm := Some \<lparr>llm_type = Some ''constructor'', api_key = Some [],
                                 model = Some ''gemini-2.5-pro'', temperature = Some (Dec 1 1),
                                 max_tokens = Some (Dec 16384 0)\<rparr>,
                  current_provider_tier := Some ''caller''\<rparr>"

text \<open>
  A page whose provider field holds \<open>gemini\<close> and whose tier field holds \<open>constructor\<close>,
  a pair with no entry in the table.
\<close>

definition page_constructor :: page where
  "page_constructor =
     set_val ''#provider-tier'' ''constructor'' (set_val ''#llm-type'' ''gemini'' page0)"

text \<open>A record with no section at all, and a page whose provider field holds \<open>openai\<close>.\<close>

definition cfg_empty :: config where
  "cfg_empty = \<lparr>llm = None, flow_control = None, docstring_options = None,
                current_provider_tier = None, user_overrides = None\<rparr>"

definition page_openai :: page where
  "page_openai = set_val ''#llm-type'' ''openai'' page0"


text \<open>
  A page of the export dialog with only the logs section selected and a given format,
  a log entry and an API call whose texts hold double quotes, and a rate-limit event.
\<close>

definition page_logs_only :: "string \<Rightarrow> page" where
  "page_logs_only fmt =
     set_checked ''#include-logs'' True (set_val ''#export-format'' fmt page0)"

definition log1 :: log_entry where
  \<open>log1 = \<lparr>log_timestamp = ''t1'', log_level = ''INFO'', log_message = ''say "hi"'',
            log_details = JNull\<rparr>\<close>

definition call_quote :: api_call where
  \<open>call_quote =
     \<lparr>call_timestamp = ''t2'', call_provider = ''gemini'', call_model = ''m'',
      call_inputTokens = Dec 1 0, call_outputTokens = Dec 2 0, call_duration = Dec 3 0,
      call_error = Some ''bad "x"''\<rparr>\<close>

definition event1 :: rate_limit_event where
  "event1 =
     \<lparr>ev_timestamp = ''t3'', ev_type = ''RATE_LIMIT_HIT'', ev_provider = ''gemini'',
      ev_limitType = ''requests'', ev_currentUsage = Dec 8 0, ev_limit = Dec 8 0,
      ev_message = ''limit reached'', ev_level = ''WARNING''\<rparr>"

text \<open>
  Two aggregator states with the same logs, one of them with an API call and a
  rate-limit event as well, and a snapshot with the log entry and the API call.
\<close>

definition data_all :: logData where
  "data_all = initial_logData\<lparr>logs := [log1], apiCalls := [call_quote], rateLimitEvents := [event1]\<rparr>"

definition data_logs :: logData where
  "data_logs = initial_logData\<lparr>logs := [log1]\<rparr>"

definition snapshot_call_quote :: exportData where
  "snapshot_call_quote =
     \<lparr>ex_metadata = \<lparr>exportTime = ''t'', format = ''csv'', version = ''1.0''\<rparr>,
      ex_logs = Some [log1], ex_apiCalls = Some [call_quote], ex_rateLimitEvents = None,
      ex_config = None, ex_stats = None\<rparr>"

section \<open>Properties of the log aggregator\<close>

text \<open>
  C9. \<open>addLogEntry\<close> appends exactly one entry to \<open>logs\<close>, adds one to \<open>errors\<close> exactly
  when the level is \<open>ERROR\<close>, adds one to \<open>warnings\<close> exactly when the level is \<open>WARNING\<close>,
  and leaves the other statistics fields as they were.
\<close>

theorem addLogEntry_effect:
  "logs (addLogEntry now level message details d) =
     logs d @ [\<lparr>log_timestamp = now, log_level = level, log_message = message,
                log_details = details\<rparr>]
   \<and> length (logs (addLogEntry now level message details d)) = length (logs d) + 1
   \<and> errors (stats (addLogEntry now level message details d)) =
       (if level = ''ERROR'' then errors (stats d) + 1 else errors (stats d))
   \<and> warnings (stats (addLogEntry now level message details d)) =
       (if level = ''WARNING'' then warnings (stats d) + 1 else warnings (stats d))
   \<and> startTime (stats (addLogEntry now level message details d)) = startTime (stats d)
   \<and> endTime (stats (addLogEntry now level message details d)) = endTime (stats d)
   \<and> totalComponents (stats (addLogEntry now level message details d)) =
       totalComponents (stats d)
   \<and> processedComponents (stats (addLogEntry now level message details d)) =
       processedComponents (stats d)"
  by (simp add: addLogEntry_def Let_def)

text \<open>
  C3. \<open>addRateLimitEvent\<close> with the kind \<open>RATE_LIMIT_HIT\<close> adds exactly one to \<open>warnings\<close>,
  appends exactly one entry to \<open>rateLimitEvents\<close> and exactly one entry to \<open>logs\<close>.
\<close>

theorem addRateLimitEvent_hit:
  "warnings (stats (addRateLimitEvent now now' ''RATE_LIMIT_HIT'' provider limitType
       currentUsage limit message d)) = warnings (stats d) + 1
   \<and> rateLimitEvents (addRateLimitEvent now now' ''RATE_LIMIT_HIT'' provider limitType
       currentUsage limit message d) =
       rateLimitEvents d @
         [\<lparr>ev_timestamp = now, ev_type = ''RATE_LIMIT_HIT'', ev_provider = provider,
           ev_limitType = limitType, ev_currentUsage = currentUsage, ev_limit = limit,
           ev_message = message, ev_level = ''WARNING''\<rparr>]
   \<and> logs (addRateLimitEvent now now' ''RATE_LIMIT_HIT'' provider limitType
       currentUsage limit message d) =
       logs d @
         [\<lparr>log_timestamp = now', log_level = ''WARNING'',
           log_message = ''Rate Limit Event: '' @ message, log_details = JNull\<rparr>]"
  by (simp add: addRateLimitEvent_def addLogEntry_def Let_def)

text \<open>
  C4. After a confirmed \<open>clearLogs\<close> the three sequences are empty and the \<open>errors\<close> and
  \<open>warnings\<close> counters are \<open>0\<close>, whatever they held before.
\<close>

theorem clearLogs_resets:
  "logs (snd (clearLogs True (p, d))) = []
   \<and> apiCalls (snd (clearLogs True (p, d))) = []
   \<and> rateLimitEvents (snd (clearLogs True (p, d))) = []
   \<and> errors (stats (snd (clearLogs True (p, d)))) = 0
   \<and> warnings (stats (snd (clearLogs True (p, d)))) = 0"
  by (simp add: clearLogs_def)

text \<open>
  C10. A confirmed \<open>clearLogs\<close> leaves \<open>startTime\<close>, \<open>endTime\<close>, \<open>totalComponents\<close>,
  \<open>processedComponents\<close> and the stored configuration as they were: the new state is the
  old one with the three sequences emptied and the two counters set to \<open>0\<close>, nothing else.
\<close>

theorem clearLogs_frame:
  "startTime (stats (snd (clearLogs True (p, d)))) = startTime (stats d)
   \<and> endTime (stats (snd (clearLogs True (p, d)))) = endTime (stats d)
   \<and> totalComponents (stats (snd (clearLogs True (p, d)))) = totalComponents (stats d)
   \<and> processedComponents (stats (snd (clearLogs True (p, d)))) = processedComponents (stats d)
   \<and> config (snd (clearLogs True (p, d))) = config d
   \<and> snd (clearLogs True (p, d)) =
       d\<lparr>logs := [], apiCalls := [], rateLimitEvents := [],
         stats := (stats d)\<lparr>errors := 0, warnings := 0\<rparr>\<rparr>"
  by (simp add: clearLogs_def)

section \<open>Properties of the configuration binder\<close>

subsection \<open>What each step writes\<close>

lemma vals_set_val:
  "vals (set_val s v p) s' = (if s' = s then control p s v else vals p s')"
  by (simp add: set_val_def)
lemma vals_set_checked: "vals (set_checked s b p) = vals p"
  by (simp add: set_checked_def)
lemma vals_set_html: "vals (set_html s h p) = vals p"
  by (simp add: set_html_def)
lemma checked_set_val: "checked (set_val s v p) = checked p"
  by (simp add: set_val_def)
lemma checked_set_html: "checked (set_html s h p) = checked p"
  by (simp add: set_html_def)
lemma checked_set_checked: "checked (set_checked s b p) s' = (if s' = s then b else checked p s')"
  by (simp add: set_checked_def)
lemma control_set_val: "control (set_val s v p) = control p"
  by (simp add: set_val_def)
lemma control_set_checked: "control (set_checked s b p) = control p"
  by (simp add: set_checked_def)
lemma control_set_html: "control (set_html s h p) = control p"
  by (simp add: set_html_def)

lemmas page_simps = vals_set_val vals_set_checked vals_set_html checked_set_val checked_set_html
  checked_set_checked control_set_val control_set_checked control_set_html

text \<open>The refresh of the display throws, or writes the display and nothing else.\<close>

lemma updateProviderLimitsDisplay_run_cases:
  "updateProviderLimitsDisplay_run p = Inl TypeError \<or>
   (\<exists>h. updateProviderLimitsDisplay_run p = Inr (set_html ''#provider-limits-display'' h p))"
proof (cases "find_limits (vals p ''#llm-type'') (vals p ''#provider-tier'')")
  case (Inl e)
  then show ?thesis
    by (cases e) (simp add: updateProviderLimitsDisplay_run_def)
next
  case (Inr v)
  then show ?thesis
    by (auto simp: updateProviderLimitsDisplay_run_def)
qed

lemma vals_updateProviderLimitsDisplay: "vals (updateProviderLimitsDisplay p) = vals p"
  using updateProviderLimitsDisplay_run_cases [of p]
  by (auto simp: updateProviderLimitsDisplay_def vals_set_html)

lemma checked_updateProviderLimitsDisplay: "checked (updateProviderLimitsDisplay p) = checked p"
  using updateProviderLimitsDisplay_run_cases [of p]
  by (auto simp: updateProviderLimitsDisplay_def checked_set_html)

lemma vals_apply_llm:
  "vals (apply_llm sec p) s =
     (case sec of None \<Rightarrow> vals p s
      | Some l \<Rightarrow>
         if s = ''#llm-max-tokens''
           then control p s (num_toString (num_or (max_tokens l) (Dec 16384 0)))
         else if s = ''#llm-temperature''
           then control p s (num_toString (num_or (temperature l) (Dec 1 1)))
         else if s = ''#llm-model'' then control p s (str_or (model l) ''gemini-2.5-pro'')
         else if s = ''#llm-api-key'' then control p s (str_or (api_key l) [])
         else if s = ''#llm-type'' then control p s (str_or (llm_type l) ''gemini'')
         else vals p s)"
  by (simp add: apply_llm_def page_simps split: option.split)

lemma checked_apply_llm: "checked (apply_llm sec p) = checked p"
  by (simp add: apply_llm_def page_simps split: option.split)

lemma control_apply_llm: "control (apply_llm sec p) = control p"
  by (simp add: apply_llm_def page_simps split: option.split)

lemma vals_apply_tier:
  "vals (apply_tier t p) s =
     (case t of None \<Rightarrow> vals p s
      | Some x \<Rightarrow> if truthy_str x \<and> s = ''#provider-tier'' then control p s x else vals p s)"
  by (simp add: apply_tier_def page_simps split: option.split)

lemma checked_apply_tier: "checked (apply_tier t p) = checked p"
  by (simp add: apply_tier_def page_simps split: option.split)

lemma control_apply_tier: "control (apply_tier t p) = control p"
  by (simp add: apply_tier_def page_simps split: option.split)

lemma vals_apply_user_overrides:
  "vals (apply_user_overrides sec p) s =
     (case sec of None \<Rightarrow> vals p s
      | Some u \<Rightarrow>
         if s = ''#batch-size'' then control p s (num_toString (num_or (batch_size u) (Dec 3 0)))
         else if s = ''#delay-between-requests''
           then control p s (num_toString (num_or (delay_between_requests u) (Dec 2000 0)))
         else if s = ''#max-components-per-minute''
           then control p s (num_toString (num_or (max_components_per_minute u) (Dec 8 0)))
         else vals p s)"
  by (simp add: apply_user_overrides_def page_simps split: option.split)

lemma checked_apply_user_overrides:
  "checked (apply_user_overrides sec p) s =
     (case sec of None \<Rightarrow> checked p s
      | Some u \<Rightarrow>
         if s = ''#enable-batch-processing'' then not_false (enable_batch_processing u)
         else if s = ''#enable-conservative-limits'' then not_false (enable_conservative_limits u)
         else checked p s)"
  by (simp add: apply_user_overrides_def page_simps split: option.split)

lemma control_apply_user_overrides: "control (apply_user_overrides sec p) = control p"
  by (simp add: apply_user_overrides_def page_simps split: option.split)

lemma vals_apply_flow_control:
  "vals (apply_flow_control sec p) s =
     (case sec of None \<Rightarrow> vals p s
      | Some f \<Rightarrow>
         if s = ''#status-sleep-time''
           then control p s (num_toString (num_or (status_sleep_time f) (Dec 1 0)))
         else if s = ''#max-verifier-rejections''
           then control p s (num_toString (num_or (max_verifier_rejections f) (Dec 1 0)))
         else if s = ''#max-reader-search-attempts''
           then control p s (num_toString (num_or (max_reader_search_attempts f) (Dec 2 0)))
         else vals p s)"
  by (simp add: apply_flow_control_def page_simps split: option.split)

lemma checked_apply_flow_control: "checked (apply_flow_control sec p) = checked p"
  by (simp add: apply_flow_control_def page_simps split: option.split)

lemma vals_apply_docstring_options: "vals (apply_docstring_options sec p) = vals p"
  by (simp add: apply_docstring_options_def page_simps split: option.split)

lemma checked_apply_docstring_options:
  "checked (apply_docstring_options sec p) s =
     (case sec of None \<Rightarrow> checked p s
      | Some o' \<Rightarrow>
         if s = ''#overwrite-docstrings'' then bool_or_false (overwrite_docstrings o')
         else checked p s)"
  by (simp add: apply_docstring_options_def page_simps split: option.split)

lemmas apply_simps = vals_apply_llm checked_apply_llm control_apply_llm vals_apply_tier
  checked_apply_tier control_apply_tier vals_apply_user_overrides checked_apply_user_overrides
  control_apply_user_overrides vals_apply_flow_control checked_apply_flow_control
  vals_apply_docstring_options checked_apply_docstring_options

text \<open>
  The page after \<open>applyConfigToForm\<close>: the first three steps when the refresh throws; the
  display written and the last two steps done when it does not.
\<close>

lemma applyConfigToForm_cases:
  fixes c p
  defines "p1 \<equiv> apply_user_overrides (user_overrides c)
                   (apply_tier (current_provider_tier c) (apply_llm (llm c) p))"
  shows "(\<not> applyConfigToForm_returns c p \<and> applyConfigToForm c p = p1) \<or>
         (applyConfigToForm_returns c p \<and>
          (\<exists>h. applyConfigToForm c p =
                 apply_docstring_options (docstring_options c)
                   (apply_flow_control (flow_control c)
                     (set_html ''#provider-limits-display'' h p1))))"
proof -
  consider "updateProviderLimitsDisplay_run p1 = Inl TypeError"
    | h where "updateProviderLimitsDisplay_run p1 =
        Inr (set_html ''#provider-limits-display'' h p1)"
    using updateProviderLimitsDisplay_run_cases [of p1] by blast
  then show ?thesis
  proof cases
    case 1
    then show ?thesis
      unfolding p1_def
      by (simp add: applyConfigToForm_def applyConfigToForm_returns_def
            applyConfigToForm_run_def)
  next
    case 2
    then show ?thesis
      unfolding p1_def
      by (auto simp: applyConfigToForm_def applyConfigToForm_returns_def
            applyConfigToForm_run_def)
  qed
qed

lemma vals_applyConfigToForm:
  "vals (applyConfigToForm c p) s =
     (if applyConfigToForm_returns c p
      then vals (apply_flow_control (flow_control c)
             (apply_user_overrides (user_overrides c)
             (apply_tier (current_provider_tier c) (apply_llm (llm c) p)))) s
      else vals (apply_user_overrides (user_overrides c)
             (apply_tier (current_provider_tier c) (apply_llm (llm c) p))) s)"
proof -
  have "vals (apply_docstring_options d (apply_flow_control f (set_html x h q))) s =
        vals (apply_flow_control f q) s" for d f x h q
    by (simp add: vals_apply_docstring_options vals_apply_flow_control vals_set_html
          control_set_html split: option.split)
  then show ?thesis
    using applyConfigToForm_cases [of c p] by auto
qed

lemma checked_applyConfigToForm:
  "checked (applyConfigToForm c p) s =
     (if applyConfigToForm_returns c p
      then checked (apply_docstring_options (docstring_options c)
             (apply_user_overrides (user_overrides c) p)) s
      else checked (apply_user_overrides (user_overrides c) p) s)"
proof -
  have a: "checked (apply_docstring_options d (apply_flow_control f (set_html x h
             (apply_user_overrides u (apply_tier t (apply_llm l q)))))) s =
        checked (apply_docstring_options d (apply_user_overrides u q)) s" for d f x h u t l q
    by (simp add: checked_apply_docstring_options checked_apply_flow_control checked_set_html
          checked_apply_user_overrides checked_apply_tier checked_apply_llm
          split: option.split)
  have b: "checked (apply_user_overrides u (apply_tier t (apply_llm l q))) s =
        checked (apply_user_overrides u q) s" for u t l q
    by (simp add: checked_apply_user_overrides checked_apply_tier checked_apply_llm
          split: option.split)
  show ?thesis
    using applyConfigToForm_cases [of c p] by (auto simp: a b)
qed

subsection \<open>Evaluating the number conversions and the lookup\<close>

lemmas parse_defs = parseInt_def parseFloat_def is_space_def is_digit_def is_hex_def
  dec_digit_def hex_digit_def digits_value_def signed_def scale_dec_def read_exponent_def
  double_range_def Let_def

lemma replicate_numeral: "replicate (numeral v) x = x # replicate (numeral v - 1) x"
  by (simp add: numeral_eq_Suc)

lemmas print_defs = digits_of.simps digit_char_def abs_toString_def strip_zeros_def exp_part_def
  replicate_numeral

lemmas lookup_defs = find_limits_def get_provider_def inherited_by_object_def
  inherited_by_function_def object_prototype_own_def function_prototype_own_def method_of_def
  object_prototype_methods_def function_prototype_methods_def object_statics_def
  providerLimits_def

lemma error_is_TypeError: "(e::error) = TypeError"
  by (cases e) simp

text \<open>
  \<open>applyConfigToForm\<close> returns unless the lookup throws on the provider and the tier that
  the form holds when the display is refreshed.
\<close>

lemma applyConfigToForm_returns_lookup:
  "applyConfigToForm_returns c p =
     (find_limits
        (case llm c of
           None \<Rightarrow> vals p ''#llm-type''
         | Some l \<Rightarrow> control p ''#llm-type'' (str_or (llm_type l) ''gemini''))
        (case current_provider_tier c of
           None \<Rightarrow> vals p ''#provider-tier''
         | Some t \<Rightarrow> if truthy_str t then control p ''#provider-tier'' t
                     else vals p ''#provider-tier'') \<noteq> Inl TypeError)"
proof -
  have "applyConfigToForm_returns c p =
      (find_limits
        (vals (apply_user_overrides (user_overrides c)
           (apply_tier (current_provider_tier c) (apply_llm (llm c) p))) ''#llm-type'')
        (vals (apply_user_overrides (user_overrides c)
           (apply_tier (current_provider_tier c) (apply_llm (llm c) p))) ''#provider-tier'')
       \<noteq> Inl TypeError)"
    by (simp add: applyConfigToForm_returns_def applyConfigToForm_run_def
          updateProviderLimitsDisplay_run_def Let_def error_is_TypeError split: sum.split)
  then show ?thesis
    by (simp add: apply_simps split: option.split)
qed

subsection \<open>The round trip\<close>









text \<open>On the fallback record the parsed numbers are the numbers: the round trip is the identity.\<close>

lemma parsed_forms_defaults: "parsed_forms cfg_defaults = cfg_defaults"
  by (simp add: parsed_forms_def cfg_defaults_def parsed_float_def parsed_int_def
        parse_defs print_defs)



text \<open>
  The two further conditions are needed. A text input drops the line break of an API
  key, which comes back without it; and on the provider \<open>constructor\<close> with the tier
  \<open>caller\<close> the refresh of the display throws, so that the flow control fields are never
  written.
\<close>

lemma roundtrip_needs_kept_strings:
  "full_config cfg_newline \<and> truthy_fields cfg_newline \<and>
   applyConfigToForm_returns cfg_newline page0 \<and> \<not> form_keeps cfg_newline page0 \<and>
   map_option api_key (llm (buildConfigFromForm (applyConfigToForm cfg_newline page0))) =
     Some (Some ''sk-abc'')"
proof (intro conjI)
  show "full_config cfg_newline"
    by (simp add: full_config_def cfg_newline_def cfg_defaults_def is_some_def)
  show "truthy_fields cfg_newline"
    by (simp add: truthy_fields_def cfg_newline_def cfg_defaults_def truthy_str_opt_def
          truthy_num_opt_def truthy_str_def)
  show "applyConfigToForm_returns cfg_newline page0"
    by (simp add: applyConfigToForm_returns_lookup cfg_newline_def cfg_defaults_def page0_def
          text_input_def str_or_def truthy_str_def lookup_defs)
  show "\<not> form_keeps cfg_newline page0"
    by (simp add: form_keeps_def cfg_newline_def kept_str_def page0_def text_input_def)
  show "map_option api_key (llm (buildConfigFromForm (applyConfigToForm cfg_newline page0))) =
     Some (Some ''sk-abc'')"
    by (simp add: buildConfigFromForm_def vals_applyConfigToForm apply_simps cfg_newline_def
          cfg_defaults_def str_or_def truthy_str_def page0_def text_input_def
          del: num_toString.simps)
qed

lemma roundtrip_needs_return:
  "full_config cfg_caller \<and> truthy_fields cfg_caller \<and> form_keeps cfg_caller page0 \<and>
   \<not> applyConfigToForm_returns cfg_caller page0 \<and>
   vals (applyConfigToForm cfg_caller page0) ''#status-sleep-time'' = []"
proof (intro conjI)
  show "full_config cfg_caller"
    by (simp add: full_config_def cfg_caller_def cfg_defaults_def is_some_def)
  show "truthy_fields cfg_caller"
    by (simp add: truthy_fields_def cfg_caller_def cfg_defaults_def truthy_str_opt_def
          truthy_num_opt_def truthy_str_def)
  show "form_keeps cfg_caller page0"
    by (simp add: form_keeps_def cfg_caller_def cfg_defaults_def kept_str_def kept_num_def
          page0_def text_input_def print_defs)
  show r: "\<not> applyConfigToForm_returns cfg_caller page0"
    by (simp add: applyConfigToForm_returns_lookup cfg_caller_def cfg_defaults_def page0_def
          text_input_def str_or_def truthy_str_def lookup_defs)
  have "vals (applyConfigToForm cfg_caller page0) ''#status-sleep-time'' =
        vals (apply_user_overrides (user_overrides cfg_caller)
               (apply_tier (current_provider_tier cfg_caller)
               (apply_llm (llm cfg_caller) page0))) ''#status-sleep-time''"
    using r by (simp only: vals_applyConfigToForm if_False)
  then show "vals (applyConfigToForm cfg_caller page0) ''#status-sleep-time'' = []"
    by (simp add: apply_simps cfg_caller_def cfg_defaults_def page0_def
          del: num_toString.simps)
qed

subsection \<open>Sections that are absent\<close>

text \<open>
  The form after \<open>applyConfigToForm\<close>, field by field: a field of an absent section keeps
  the value of the page; a field of a section that is there gets the value of the record
  or, when that is missing or falsy, the fallback of the source, as its control stores
  it. The flow control and docstring fields are written only when the call returns.
\<close>

lemma llm_fields:
  "case llm c of
     None \<Rightarrow>
       vals (applyConfigToForm c p) ''#llm-type'' = vals p ''#llm-type''
       \<and> vals (applyConfigToForm c p) ''#llm-api-key'' = vals p ''#llm-api-key''
       \<and> vals (applyConfigToForm c p) ''#llm-model'' = vals p ''#llm-model''
       \<and> vals (applyConfigToForm c p) ''#llm-temperature'' = vals p ''#llm-temperature''
       \<and> vals (applyConfigToForm c p) ''#llm-max-tokens'' = vals p ''#llm-max-tokens''
   | Some l \<Rightarrow>
       vals (applyConfigToForm c p) ''#llm-type'' =
         control p ''#llm-type'' (str_or (llm_type l) ''gemini'')
       \<and> vals (applyConfigToForm c p) ''#llm-api-key'' =
           control p ''#llm-api-key'' (str_or (api_key l) [])
       \<and> vals (applyConfigToForm c p) ''#llm-model'' =
           control p ''#llm-model'' (str_or (model l) ''gemini-2.5-pro'')
       \<and> vals (applyConfigToForm c p) ''#llm-temperature'' =
           control p ''#llm-temperature'' (num_toString (num_or (temperature l) (Dec 1 1)))
       \<and> vals (applyConfigToForm c p) ''#llm-max-tokens'' =
           control p ''#llm-max-tokens'' (num_toString (num_or (max_tokens l) (Dec 16384 0)))"
  by (simp add: vals_applyConfigToForm apply_simps del: num_toString.simps split: option.split)

lemma tier_field:
  "case current_provider_tier c of
     None \<Rightarrow> vals (applyConfigToForm c p) ''#provider-tier'' = vals p ''#provider-tier''
   | Some t \<Rightarrow>
       vals (applyConfigToForm c p) ''#provider-tier'' =
         (if truthy_str t then control p ''#provider-tier'' t else vals p ''#provider-tier'')"
  by (simp add: vals_applyConfigToForm apply_simps del: num_toString.simps split: option.split)

lemma user_overrides_fields:
  "case user_overrides c of
     None \<Rightarrow>
       checked (applyConfigToForm c p) ''#enable-conservative-limits'' =
         checked p ''#enable-conservative-limits''
       \<and> vals (applyConfigToForm c p) ''#max-components-per-minute'' =
           vals p ''#max-components-per-minute''
       \<and> vals (applyConfigToForm c p) ''#delay-between-requests'' =
           vals p ''#delay-between-requests''
       \<and> checked (applyConfigToForm c p) ''#enable-batch-processing'' =
           checked p ''#enable-batch-processing''
       \<and> vals (applyConfigToForm c p) ''#batch-size'' = vals p ''#batch-size''
   | Some u \<Rightarrow>
       checked (applyConfigToForm c p) ''#enable-conservative-limits'' =
         not_false (enable_conservative_limits u)
       \<and> vals (applyConfigToForm c p) ''#max-components-per-minute'' =
           control p ''#max-components-per-minute''
             (num_toString (num_or (max_components_per_minute u) (Dec 8 0)))
       \<and> vals (applyConfigToForm c p) ''#delay-between-requests'' =
           control p ''#delay-between-requests''
             (num_toString (num_or (delay_between_requests u) (Dec 2000 0)))
       \<and> checked (applyConfigToForm c p) ''#enable-batch-processing'' =
           not_false (enable_batch_processing u)
       \<and> vals (applyConfigToForm c p) ''#batch-size'' =
           control p ''#batch-size'' (num_toString (num_or (batch_size u) (Dec 3 0)))"
  by (simp add: vals_applyConfigToForm checked_applyConfigToForm apply_simps
        del: num_toString.simps split: option.split)

lemma flow_control_fields:
  "case flow_control c of
     None \<Rightarrow>
       vals (applyConfigToForm c p) ''#max-reader-search-attempts'' =
         vals p ''#max-reader-search-attempts''
       \<and> vals (applyConfigToForm c p) ''#max-verifier-rejections'' =
           vals p ''#max-verifier-rejections''
       \<and> vals (applyConfigToForm c p) ''#status-sleep-time'' = vals p ''#status-sleep-time''
   | Some f \<Rightarrow>
       vals (applyConfigToForm c p) ''#max-reader-search-attempts'' =
         (if applyConfigToForm_returns c p
          then control p ''#max-reader-search-attempts''
                 (num_toString (num_or (max_reader_search_attempts f) (Dec 2 0)))
          else vals p ''#max-reader-search-attempts'')
       \<and> vals (applyConfigToForm c p) ''#max-verifier-rejections'' =
           (if applyConfigToForm_returns c p
            then control p ''#max-verifier-rejections''
                   (num_toString (num_or (max_verifier_rejections f) (Dec 1 0)))
            else vals p ''#max-verifier-rejections'')
       \<and> vals (applyConfigToForm c p) ''#status-sleep-time'' =
           (if applyConfigToForm_returns c p
            then control p ''#status-sleep-time''
                   (num_toString (num_or (status_sleep_time f) (Dec 1 0)))
            else vals p ''#status-sleep-time'')"
  by (simp add: vals_applyConfigToForm apply_simps del: num_toString.simps split: option.split)

lemma docstring_options_field:
  "case docstring_options c of
     None \<Rightarrow>
       checked (applyConfigToForm c p) ''#overwrite-docstrings'' =
         checked p ''#overwrite-docstrings''
   | Some o' \<Rightarrow>
       checked (applyConfigToForm c p) ''#overwrite-docstrings'' =
         (if applyConfigToForm_returns c p then bool_or_false (overwrite_docstrings o')
          else checked p ''#overwrite-docstrings'')"
  by (simp add: checked_applyConfigToForm apply_simps split: option.split)

text \<open>
  C2, as the code has it. For every configuration record, \<open>applyConfigToForm\<close> leaves each
  form field of an absent section (\<open>llm\<close>, \<open>current_provider_tier\<close>, \<open>user_overrides\<close>,
  \<open>flow_control\<close>, \<open>docstring_options\<close>) unchanged: it holds the value it held before the
  call.
\<close>

theorem applyConfigToForm_absent_sections:
  "(llm c = None \<longrightarrow>
       vals (applyConfigToForm c p) ''#llm-type'' = vals p ''#llm-type''
       \<and> vals (applyConfigToForm c p) ''#llm-api-key'' = vals p ''#llm-api-key''
       \<and> vals (applyConfigToForm c p) ''#llm-model'' = vals p ''#llm-model''
       \<and> vals (applyConfigToForm c p) ''#llm-temperature'' = vals p ''#llm-temperature''
       \<and> vals (applyConfigToForm c p) ''#llm-max-tokens'' = vals p ''#llm-max-tokens'')
   \<and> (current_provider_tier c = None \<longrightarrow>
       vals (applyConfigToForm c p) ''#provider-tier'' = vals p ''#provider-tier'')
   \<and> (user_overrides c = None \<longrightarrow>
       checked (applyConfigToForm c p) ''#enable-conservative-limits'' =
         checked p ''#enable-conservative-limits''
       \<and> vals (applyConfigToForm c p) ''#max-components-per-minute'' =
           vals p ''#max-components-per-minute''
       \<and> vals (applyConfigToForm c p) ''#delay-between-requests'' =
           vals p ''#delay-between-requests''
       \<and> checked (applyConfigToForm c p) ''#enable-batch-processing'' =
           checked p ''#enable-batch-processing''
       \<and> vals (applyConfigToForm c p) ''#batch-size'' = vals p ''#batch-size'')
   \<and> (flow_control c = None \<longrightarrow>
       vals (applyConfigToForm c p) ''#max-reader-search-attempts'' =
         vals p ''#max-reader-search-attempts''
       \<and> vals (applyConfigToForm c p) ''#max-verifier-rejections'' =
           vals p ''#max-verifier-rejections''
       \<and> vals (applyConfigToForm c p) ''#status-sleep-time'' = vals p ''#status-sleep-time'')
   \<and> (docstring_options c = None \<longrightarrow>
       checked (applyConfigToForm c p) ''#overwrite-docstrings'' =
         checked p ''#overwrite-docstrings'')"
  using llm_fields [of c p] tier_field [of c p] user_overrides_fields [of c p]
    flow_control_fields [of c p] docstring_options_field [of c p]
  by (simp split: option.splits)

lemma vals_page_openai: "vals page_openai ''#llm-type'' = ''openai''"
  by (simp add: page_openai_def set_val_def page0_def text_input_def)

theorem applyConfigToForm_absent_sections_witness:
  "llm cfg_empty = None
   \<and> vals page_openai ''#llm-type'' = ''openai''
   \<and> vals (applyConfigToForm cfg_empty page_openai) ''#llm-type'' = ''openai''"
  using applyConfigToForm_absent_sections [of cfg_empty page_openai]
  by (simp add: cfg_empty_def vals_page_openai)

text \<open>
  C2 as stated fails: with no \<open>llm\<close> section and a page whose provider field holds
  \<open>openai\<close>, the field still holds \<open>openai\<close> afterwards, not the fallback \<open>gemini\<close>.
\<close>

theorem fallback_counterexample:
  "llm cfg_empty = None
   \<and> vals (applyConfigToForm cfg_empty page_openai) ''#llm-type'' \<noteq> ''gemini''"
  using llm_fields [of cfg_empty page_openai]
  by (simp add: cfg_empty_def vals_page_openai)

subsection \<open>The provider limits display\<close>

text \<open>The display after the call: as it was when the lookup throws, else what the lookup gives.\<close>

lemma html_updateProviderLimitsDisplay:
  "html (updateProviderLimitsDisplay p) ''#provider-limits-display'' =
     (case find_limits (vals p ''#llm-type'') (vals p ''#provider-tier'') of
        Inl e \<Rightarrow> html p ''#provider-limits-display''
      | Inr v \<Rightarrow> if truthy_value v then limits_html v else limits_placeholder)"
  by (simp add: updateProviderLimitsDisplay_def updateProviderLimitsDisplay_run_def Let_def
        set_html_def split: sum.split)

lemma vals_page_constructor:
  "vals page_constructor ''#llm-type'' = ''gemini''"
  "vals page_constructor ''#provider-tier'' = ''constructor''"
  by (simp_all add: page_constructor_def set_val_def page0_def text_input_def)

text \<open>
  C8. The display is to show the placeholder for every provider and tier that have no
  entry in the table. The code reads the table with plain property reads, which also
  answer inherited names: for the provider \<open>gemini\<close> and the tier \<open>constructor\<close>, a pair
  with no entry, the second read gives the built-in function \<open>Object\<close>, which is truthy,
  and the display is the template filled with \<open>undefined\<close> and \<open>NaN\<close>, not the placeholder.
\<close>

theorem limits_display_inherited_key:
  \<open>vals page_constructor ''#llm-type'' = ''gemini'' \<and>
   vals page_constructor ''#provider-tier'' = ''constructor'' \<and>
   map_option (\<lambda>tiers. map_of tiers ''constructor'') (map_of providerLimits ''gemini'') =
     Some None \<and>
   html (updateProviderLimitsDisplay page_constructor) ''#provider-limits-display'' =
       nl @
       ''            <div class="row">'' @ nl @
       ''                <div class="col-6">'' @ nl @
       ''                    <small><strong>Requests/Min:</strong><br>undefined (using NaN)</small>'' @ nl @
       ''                </div>'' @ nl @
       ''                <div class="col-6">'' @ nl @
       ''                    <small><strong>Input Tokens:</strong><br>undefined</small>'' @ nl @
       ''                </div>'' @ nl @
       ''            </div>'' @ nl @
       ''            <div class="row mt-1">'' @ nl @
       ''                <div class="col-6">'' @ nl @
       ''                    <small><strong>Output Tokens:</strong><br>undefined</small>'' @ nl @
       ''                </div>'' @ nl @
       ''                <div class="col-6">'' @ nl @
       ''                    <small><strong>Tier:</strong><br>undefined</small>'' @ nl @
       ''                </div>'' @ nl @
       ''            </div>'' @ nl @
       ''        ''\<close>
proof (intro conjI)
  show "vals page_constructor ''#llm-type'' = ''gemini''"
    by (rule vals_page_constructor)
  show "vals page_constructor ''#provider-tier'' = ''constructor''"
    by (rule vals_page_constructor)
  show "map_option (\<lambda>tiers. map_of tiers ''constructor'') (map_of providerLimits ''gemini'') =
     Some None"
    by (simp add: providerLimits_def)
  have "find_limits ''gemini'' ''constructor'' = Inr (VNative (BuiltinFunction ''Object'' 1))"
    by (simp add: lookup_defs)
  then show \<open>html (updateProviderLimitsDisplay page_constructor) ''#provider-limits-display'' =
       nl @
       ''            <div class="row">'' @ nl @
       ''                <div class="col-6">'' @ nl @
       ''                    <small><strong>Requests/Min:</strong><br>undefined (using NaN)</small>'' @ nl @
       ''                </div>'' @ nl @
       ''                <div class="col-6">'' @ nl @
       ''                    <small><strong>Input Tokens:</strong><br>undefined</small>'' @ nl @
       ''                </div>'' @ nl @
       ''            </div>'' @ nl @
       ''            <div class="row mt-1">'' @ nl @
       ''                <div class="col-6">'' @ nl @
       ''                    <small><strong>Output Tokens:</strong><br>undefined</small>'' @ nl @
       ''                </div>'' @ nl @
       ''                <div class="col-6">'' @ nl @
       ''                    <small><strong>Tier:</strong><br>undefined</small>'' @ nl @
       ''                </div>'' @ nl @
       ''            </div>'' @ nl @
       ''        ''\<close>
    by (simp add: html_updateProviderLimitsDisplay vals_page_constructor limits_html_def
          requests_text_def effective_text_def field_text_def)
qed

text \<open>
  The effective quota is the floor of 80 percent of the nominal request limit, and a
  pair with an entry in the table renders that entry with its effective quota.
\<close>

lemma effectiveRequests_floor:
  "effectiveRequests l = \<lfloor>real_of_int (requests l) * 0.8\<rfloor>"
proof -
  have "real_of_int (requests l) * 0.8 = real_of_int (requests l * 8) / real_of_int 10"
    by simp
  then show ?thesis
    unfolding effectiveRequests_def by (simp only: floor_divide_of_int_eq)
qed

lemma limits_display_entry:
  assumes "map_of providerLimits (vals p ''#llm-type'') = Some tiers"
    and "map_of tiers (vals p ''#provider-tier'') = Some l"
  shows \<open>html (updateProviderLimitsDisplay p) ''#provider-limits-display'' =
       nl @
       ''            <div class="row">'' @ nl @
       ''                <div class="col-6">'' @ nl @
       ''                    <small><strong>Requests/Min:</strong><br>'' @ int_toString (requests l) @
         '' (using '' @ int_toString \<lfloor>real_of_int (requests l) * 0.8\<rfloor> @ '')</small>'' @ nl @
       ''                </div>'' @ nl @
       ''                <div class="col-6">'' @ nl @
       ''                    <small><strong>Input Tokens:</strong><br>'' @ lim_input l @ ''</small>'' @ nl @
       ''                </div>'' @ nl @
       ''            </div>'' @ nl @
       ''            <div class="row mt-1">'' @ nl @
       ''                <div class="col-6">'' @ nl @
       ''                    <small><strong>Output Tokens:</strong><br>'' @ lim_output l @ ''</small>'' @ nl @
       ''                </div>'' @ nl @
       ''                <div class="col-6">'' @ nl @
       ''                    <small><strong>Tier:</strong><br>'' @ lim_tier l @ ''</small>'' @ nl @
       ''                </div>'' @ nl @
       ''            </div>'' @ nl @
       ''        ''\<close>
proof -
  have "find_limits (vals p ''#llm-type'') (vals p ''#provider-tier'') = Inr (VLimits l)"
    using assms by (simp add: find_limits_def get_provider_def)
  then show ?thesis
    by (simp add: html_updateProviderLimitsDisplay limits_html_def requests_text_def
          effective_text_def field_text_def effectiveRequests_floor)
qed

text \<open>
  A pair with no entry renders the placeholder when neither name is one that a plain
  object inherits.
\<close>

lemma inherited_by_object_undefined:
  "k \<notin> set inherited_names \<Longrightarrow> inherited_by_object k = VUndefined"
  by (simp add: inherited_names_def inherited_by_object_def object_prototype_own_def
        method_of_def object_prototype_methods_def)

lemma limits_display_placeholder:
  assumes "vals p ''#llm-type'' \<notin> set inherited_names"
    and "vals p ''#provider-tier'' \<notin> set inherited_names"
    and "case map_of providerLimits (vals p ''#llm-type'') of
           None \<Rightarrow> True
         | Some tiers \<Rightarrow> map_of tiers (vals p ''#provider-tier'') = None"
  shows \<open>html (updateProviderLimitsDisplay p) ''#provider-limits-display'' =
           ''<small class="text-muted">Select provider and tier to see limits</small>''\<close>
proof -
  have "find_limits (vals p ''#llm-type'') (vals p ''#provider-tier'') = Inr VNull"
    using assms
    by (auto simp: find_limits_def get_provider_def inherited_by_object_undefined
          split: option.splits)
  then show ?thesis
    by (simp add: html_updateProviderLimitsDisplay limits_placeholder_def)
qed

text \<open>The table at work: the display of an entry, every effective quota, and some lookups.\<close>

lemma limits_display_gemini_free:
  \<open>html (updateProviderLimitsDisplay
      (set_val ''#provider-tier'' ''free'' (set_val ''#llm-type'' ''gemini'' page0)))
      ''#provider-limits-display'' =
       nl @
       ''            <div class="row">'' @ nl @
       ''                <div class="col-6">'' @ nl @
       ''                    <small><strong>Requests/Min:</strong><br>150 (using 120)</small>'' @ nl @
       ''                </div>'' @ nl @
       ''                <div class="col-6">'' @ nl @
       ''                    <small><strong>Input Tokens:</strong><br>1M</small>'' @ nl @
       ''                </div>'' @ nl @
       ''            </div>'' @ nl @
       ''            <div class="row mt-1">'' @ nl @
       ''                <div class="col-6">'' @ nl @
       ''                    <small><strong>Output Tokens:</strong><br>1M</small>'' @ nl @
       ''                </div>'' @ nl @
       ''                <div class="col-6">'' @ nl @
       ''                    <small><strong>Tier:</strong><br>Free</small>'' @ nl @
       ''                </div>'' @ nl @
       ''            </div>'' @ nl @
       ''        ''\<close>
proof -
  have "find_limits ''gemini'' ''free'' =
      Inr (VLimits \<lparr>requests = 150, lim_input = ''1M'', lim_output = ''1M'', lim_tier = ''Free''\<rparr>)"
    by (simp add: lookup_defs)
  then show ?thesis
    by (simp add: html_updateProviderLimitsDisplay set_val_def page0_def text_input_def
          limits_html_def requests_text_def effective_text_def field_text_def
          effectiveRequests_def int_toString_def num_of_int_def print_defs)
qed

lemma effective_table:
  "map (\<lambda>(p, ts). (p, map (\<lambda>(t, l). (t, requests l, effectiveRequests l)) ts)) providerLimits =
     [(''gemini'', [(''free'', 150, 120), (''pay_as_you_go'', 150, 120), (''enterprise'', 150, 120)]),
      (''claude'', [(''standard'', 50, 40), (''premium'', 500, 400)]),
      (''openai'', [(''standard'', 500, 400), (''premium'', 10000, 8000)])]"
  by (simp add: providerLimits_def effectiveRequests_def)

lemma find_limits_examples:
  "find_limits ''mistral'' ''free'' = Inr VNull"
  "find_limits ''gemini'' ''premium'' = Inr VNull"
  "find_limits ''gemini'' ''__proto__'' = Inr (VNative ObjectPrototype)"
  "find_limits ''constructor'' ''name'' = Inr (VString ''Object'')"
  "find_limits ''toString'' ''length'' = Inr VNull"
  "find_limits ''constructor'' ''caller'' = Inl TypeError"
  by (simp_all add: lookup_defs truthy_str_def)

section \<open>Properties of the export\<close>

subsection \<open>A snapshot of the logs alone\<close>

text \<open>
  With only the logs section selected, the snapshot holds the metadata and the logs and
  nothing of the API calls, the rate-limit events, the configuration or the statistics.
\<close>

lemma collect_logs_only:
  assumes "checked p ''#include-logs''" and "\<not> checked p ''#include-api-calls''"
    and "\<not> checked p ''#include-rate-limits''" and "\<not> checked p ''#include-config''"
    and "\<not> checked p ''#include-stats''"
  shows "collect_exportData now fmt p d =
         \<lparr>ex_metadata = \<lparr>exportTime = now, format = fmt, version = ''1.0''\<rparr>,
          ex_logs = Some (logs d), ex_apiCalls = None, ex_rateLimitEvents = None,
          ex_config = None, ex_stats = None\<rparr>"
  using assms by (simp add: collect_exportData_def)

text \<open>
  C5. With only the logs section selected, the export does not depend on the \<open>apiCalls\<close>
  or \<open>rateLimitEvents\<close> sequences (nor on the configuration or the statistics): two
  aggregator states with the same logs give the same export, whatever the format field
  holds, so in each of \<open>json\<close>, \<open>txt\<close> and \<open>csv\<close>. (The entries that
  \<open>addRateLimitEvent\<close> adds to \<open>logs\<close> are logs and are exported as such.)
\<close>

theorem export_logs_only_independent:
  assumes "checked p ''#include-logs''" and "\<not> checked p ''#include-api-calls''"
    and "\<not> checked p ''#include-rate-limits''" and "\<not> checked p ''#include-config''"
    and "\<not> checked p ''#include-stats''"
    and "logs d = logs d'"
  shows "exportLogs now now' d p = exportLogs now now' d' p"
proof -
  have "collect_exportData now' fmt p d = collect_exportData now' fmt p d'" for fmt
    using assms by (simp add: collect_logs_only)
  then show ?thesis
    by (simp only: exportLogs_def)
qed

lemma checked_page_logs_only:
  "checked (page_logs_only fmt) s = (s = ''#include-logs'')"
  by (simp add: page_logs_only_def page0_def set_checked_def set_val_def text_input_def)

theorem export_logs_only_independent_witness:
  "checked (page_logs_only ''csv'') ''#include-logs''
   \<and> \<not> checked (page_logs_only ''csv'') ''#include-api-calls''
   \<and> \<not> checked (page_logs_only ''csv'') ''#include-rate-limits''
   \<and> \<not> checked (page_logs_only ''csv'') ''#include-config''
   \<and> \<not> checked (page_logs_only ''csv'') ''#include-stats''
   \<and> logs data_all = logs data_logs
   \<and> apiCalls data_all \<noteq> apiCalls data_logs
   \<and> exportLogs ''t'' ''t'' data_all (page_logs_only ''csv'') =
       exportLogs ''t'' ''t'' data_logs (page_logs_only ''csv'')"
  using export_logs_only_independent [of "page_logs_only ''csv''" data_all data_logs "''t''" "''t''"]
  by (simp add: checked_page_logs_only data_all_def data_logs_def initial_logData_def)

text \<open>The content of such an export in the three formats: metadata and log entries only.\<close>

lemma export_logs_only_content:
  assumes "checked p ''#include-logs''" and "\<not> checked p ''#include-api-calls''"
    and "\<not> checked p ''#include-rate-limits''" and "\<not> checked p ''#include-config''"
    and "\<not> checked p ''#include-stats''"
  shows "exportData_json (collect_exportData now fmt p d) =
           JObj [(''metadata'', metadata_json \<lparr>exportTime = now, format = fmt, version = ''1.0''\<rparr>),
                 (''logs'', JArr (map log_entry_json (logs d)))]"
    and "generateTextExport (collect_exportData now fmt p d) =
           text_header \<lparr>exportTime = now, format = fmt, version = ''1.0''\<rparr> @
           (if logs d = [] then []
            else ''PROCESSING LOGS'' @ nl @ replicate 20 CHR ''='' @ nl @
                 concat (map text_log (logs d)) @ nl)"
    and "generateCSVExport (collect_exportData now fmt p d) =
           csv_line csv_headers @ concat (map (\<lambda>e. csv_line (csv_log_row e)) (logs d))"
  using assms
  by (simp_all add: collect_logs_only exportData_json_def opt_field_def generateTextExport_def
        generateCSVExport_def)

subsection \<open>The export at work\<close>

text \<open>
  The file handed to the browser for a state with one log entry, one API call and one
  rate-limit event when only the logs are selected, in the three formats.
\<close>

lemma exportLogs_csv_example:
  \<open>downloads (exportLogs ''2026-11-03T10:15:00.123Z'' ''2026-11-03T10:15:00.456Z'' data_all
      (page_logs_only ''csv'')) =
     [\<lparr>dl_content =
         ''Timestamp,Type,Level,Provider,Model,Message,Details'' @ nl @
         ''"t1","Log","INFO","","","say ""hi""",""'' @ nl,
       dl_filename = ''scribe-logs-2026-11-03T10-15-00.csv'',
       dl_mimeType = ''text/csv''\<rparr>]\<close>
  by (simp add: exportLogs_def page_logs_only_def page0_def set_checked_def set_val_def
        text_input_def
        truthy_str_def default_filename_def collect_exportData_def data_all_def Let_def
        initial_logData_def downloadFile_def showMessage_def generateCSVExport_def log1_def
        csv_line_def csv_headers_def csv_log_row_def quoted_def double_quotes_def nl_def)

lemma exportLogs_json_example:
  \<open>map dl_content (downloads (exportLogs ''t'' ''2026-11-03T10:15:00.456Z'' data_all
      (page_logs_only ''json''))) =
     [''{'' @ nl @
      ''  "metadata": {'' @ nl @
      ''    "exportTime": "2026-11-03T10:15:00.456Z",'' @ nl @
      ''    "format": "json",'' @ nl @
      ''    "version": "1.0"'' @ nl @
      ''  },'' @ nl @
      ''  "logs": ['' @ nl @
      ''    {'' @ nl @
      ''      "timestamp": "t1",'' @ nl @
      ''      "level": "INFO",'' @ nl @
      ''      "message": "say '' @ [CHR 0x5C] @ ''"hi'' @ [CHR 0x5C] @ ''"",'' @ nl @
      ''      "details": null'' @ nl @
      ''    }'' @ nl @
      ''  ]'' @ nl @
      ''}'']\<close>
  by (simp add: exportLogs_def page_logs_only_def page0_def set_checked_def set_val_def
        text_input_def
        truthy_str_def default_filename_def collect_exportData_def data_all_def Let_def
        initial_logData_def downloadFile_def showMessage_def JSON_stringify_def
        exportData_json_def metadata_json_def log_entry_json_def opt_field_def log1_def
        json_quote_def json_escape_def nl_def)


lemma exportLogs_txt_example:
  \<open>map dl_content (downloads (exportLogs ''t'' ''2026-11-03T10:15:00.456Z'' data_all
      (page_logs_only ''txt''))) =
     [''Scribe Processing Logs Export'' @ nl @
      ''Generated: 2026-11-03T10:15:00.456Z'' @ nl @
      ''Format: txt'' @ nl @
      ''Version: 1.0'' @ nl @
      nl @
      ''=================================================='' @ nl @
      nl @
      ''PROCESSING LOGS'' @ nl @
      ''===================='' @ nl @
      ''[t1] INFO: say "hi"'' @ nl @
      nl]\<close>
  by (simp add: exportLogs_def page_logs_only_def page0_def set_checked_def set_val_def
        text_input_def
        truthy_str_def default_filename_def collect_exportData_def data_all_def Let_def
        initial_logData_def downloadFile_def showMessage_def generateTextExport_def
        text_header_def text_log_def log1_def nl_def replicate_numeral)

subsection \<open>An unknown format\<close>

text \<open>
  C6. When the format field holds anything but \<open>json\<close>, \<open>txt\<close> or \<open>csv\<close>, \<open>exportLogs\<close>
  shows the error message \<open>Unknown export format\<close> and does nothing else: no file is
  handed to the browser and the dialog stays as it was.
\<close>

theorem exportLogs_unknown_format:
  assumes "vals p ''#export-format'' \<noteq> ''json''" and "vals p ''#export-format'' \<noteq> ''txt''"
    and "vals p ''#export-format'' \<noteq> ''csv''"
  shows "exportLogs now now' d p = showMessage ''error'' ''Unknown export format'' p
    \<and> downloads (exportLogs now now' d p) = downloads p
    \<and> messages (exportLogs now now' d p) = messages p @ [(''error'', ''Unknown export format'')]
    \<and> modal_open (exportLogs now now' d p) = modal_open p"
  using assms by (simp add: exportLogs_def showMessage_def Let_def)

theorem exportLogs_unknown_format_witness:
  "vals (page_logs_only ''xml'') ''#export-format'' \<noteq> ''json''
   \<and> vals (page_logs_only ''xml'') ''#export-format'' \<noteq> ''txt''
   \<and> vals (page_logs_only ''xml'') ''#export-format'' \<noteq> ''csv''
   \<and> downloads (exportLogs ''t'' ''t'' data_all (page_logs_only ''xml'')) = []
   \<and> messages (exportLogs ''t'' ''t'' data_all (page_logs_only ''xml'')) =
       [(''error'', ''Unknown export format'')]"
proof -
  have v: "vals (page_logs_only ''xml'') ''#export-format'' = ''xml''"
    by (simp add: page_logs_only_def set_checked_def set_val_def page0_def text_input_def)
  have "downloads (page_logs_only ''xml'') = []" "messages (page_logs_only ''xml'') = []"
    by (simp_all add: page_logs_only_def set_checked_def set_val_def page0_def)
  then show ?thesis
    using exportLogs_unknown_format [of "page_logs_only ''xml''" "''t''" "''t''" data_all]
    by (simp add: v showMessage_def)
qed

subsection \<open>The CSV format\<close>

text \<open>
  The layout of the CSV export: the header row, then the rows of the log entries, of the
  API calls and of the rate-limit events, in this order.
\<close>

lemma generateCSVExport_layout:
  "generateCSVExport
     \<lparr>ex_metadata = m, ex_logs = Some ls, ex_apiCalls = Some cs, ex_rateLimitEvents = Some es,
      ex_config = c, ex_stats = st\<rparr> =
   csv_line csv_headers @
   concat (map (\<lambda>e. csv_line (csv_log_row e)) ls) @
   concat (map (\<lambda>c. csv_line (csv_call_row c)) cs) @
   concat (map (\<lambda>e. csv_line (csv_event_row e)) es)"
  by (simp add: generateCSVExport_def)

lemma csv_header_line:
  "csv_line csv_headers = ''Timestamp,Type,Level,Provider,Model,Message,Details'' @ nl"
  by (simp add: csv_line_def csv_headers_def)

text \<open>The messages of log entries and rate-limit events have their double quotes doubled.\<close>

lemma double_quotes_count:
  "length (filter (\<lambda>c. c = CHR 0x22) (double_quotes s)) =
   2 * length (filter (\<lambda>c. c = CHR 0x22) s)"
  by (induction s) (simp_all add: double_quotes_def)

text \<open>
  C7. The CSV export is to double every embedded double quote of a record's field
  values. The code does so for the message of a log entry and of a rate-limit event only:
  on a snapshot with one log entry and one API call whose error text is \<open>bad "x"\<close>, the
  log row has its quotes doubled and the API call row has the error text as it is, its
  double quotes not doubled.
\<close>

theorem csv_api_error_quote_not_escaped:
  \<open>generateCSVExport snapshot_call_quote =
     ''Timestamp,Type,Level,Provider,Model,Message,Details'' @ nl @
     ''"t1","Log","INFO","","","say ""hi""",""'' @ nl @
     ''"t2","API Call","INFO","gemini","m","API Call - 1 input, 2 output tokens","Duration: 3ms, Error: bad "x""'' @ nl\<close>
  by (simp add: generateCSVExport_def snapshot_call_quote_def log1_def call_quote_def
        csv_line_def csv_headers_def csv_log_row_def csv_call_row_def quoted_def
        double_quotes_def truthy_str_def nl_def print_defs)

end
